theory Spec2Isabelle
  imports Main "HOL-Library.Multiset"
begin

section \<open>Records of the two sources\<close>

text \<open>
  The normalised records that the two clients build and the enrichment engine consumes.
  Several JavaScript objects share field names (\<open>url\<close>, \<open>status\<close>, \<open>repository\<close>, ...);
  a field \<open>f\<close> of the issue object is \<open>i_f\<close> here, of the commit object \<open>c_f\<close>, of the
  pull-request object \<open>pr_f\<close>, of the repository entry \<open>r_f\<close>. Texts are \<open>string\<close>s,
  one \<open>char\<close> per code unit.
\<close>

record issue =
  i_key :: string
  i_summary :: string
  i_status :: string
  i_priority :: string
  i_type :: string
  i_project :: string
  i_created :: string
  i_updated :: string
  i_url :: string

record commit =
  c_sha :: string
  c_message :: string
  c_author :: string
  c_date :: string
  c_url :: string
  c_repository :: string
  c_jiraTickets :: "string list"

record pullRequest =
  pr_number :: nat
  pr_title :: string
  pr_state :: string
  pr_created :: string
  pr_updated :: string
  pr_url :: string
  pr_repository :: string
  pr_baseBranch :: string
  pr_headBranch :: string

record repositoryEntry =
  r_name :: string
  r_commitCount :: nat
  r_lastCommit :: string

text \<open>
  The two bundles handed to \<open>enrich\<close>. A field that may be missing from the object
  (\<open>undefined\<close>) is an \<open>option\<close>; the source reads each of them as \<open>x || []\<close>.
  The user objects and the recent-activity entries are only passed through.
\<close>

record ('u, 'a) jiraData =
  j_user :: "'u option"
  j_issues :: "issue list option"
  j_recentActivity :: "'a list option"

record 'u githubData =
  g_user :: "'u option"
  g_commits :: "commit list option"
  g_pullRequests :: "pullRequest list option"
  g_repositories :: "repositoryEntry list option"

text \<open>\<open>x || []\<close> on a value that is either an array or missing.\<close>

definition orEmpty :: "'a list option \<Rightarrow> 'a list" where
  "orEmpty x = (case x of None \<Rightarrow> [] | Some xs \<Rightarrow> xs)"

text \<open>
  Exceptions are values: a function that can throw returns \<open>error + 'a\<close>, with \<open>Inl\<close> the
  thrown error. \<open>RequestFailed st\<close> is the rejection of an HTTP request, with the status
  of the response when there was one.
\<close>

datatype error = TypeError | RequestFailed "nat option"

section \<open>The enrichment engine (data-enricher.js)\<close>

record linkedCommit =
  lc_sha :: string
  lc_message :: string
  lc_date :: string
  lc_url :: string
  lc_repository :: string

record linkedTicket =
  lt_key :: string
  lt_summary :: string
  lt_status :: string
  lt_url :: string

record linkedPair =
  lp_commit :: linkedCommit
  lp_ticket :: linkedTicket

datatype level = low | medium | high

datatype window = Days int | recent

record metrics =
  activityScore :: nat
  activityLevel :: level
  totalItems :: nat
  timeframe :: window

record pattern =
  p_type :: string
  p_description :: string
  p_impact :: string

text \<open>
  The tallies \<open>byStatus\<close>, \<open>byPriority\<close>, \<open>byType\<close> are objects used as dictionaries:
  maps from the label to its count. \<open>highPriority\<close> is missing from the summary of an
  empty issue list.
\<close>

record jiraSummary =
  js_count :: nat
  js_byStatus :: "string \<rightharpoonup> nat"
  js_byPriority :: "string \<rightharpoonup> nat"
  js_byType :: "string \<rightharpoonup> nat"
  js_highPriority :: "nat option"

record githubSummary =
  gs_commitCount :: nat
  gs_prCount :: nat
  gs_repositoryCount :: nat
  gs_activeRepositories :: "string list"

record 'a enrichedJira =
  ej_activeIssues :: "issue list"
  ej_recentActivity :: "'a list"
  ej_summary :: jiraSummary

record enrichedGithub =
  eg_commits :: "commit list"
  eg_pullRequests :: "pullRequest list"
  eg_repositories :: "repositoryEntry list"
  eg_summary :: githubSummary

record 'a enriched =
  e_jira :: "'a enrichedJira"
  e_github :: enrichedGithub
  e_linked :: "linkedPair list"
  e_metrics :: metrics
  e_workPatterns :: "pattern list"

text \<open>\<open>m[k] = (m[k] || 0) + 1\<close>\<close>

definition tally :: "string \<Rightarrow> (string \<rightharpoonup> nat) \<Rightarrow> (string \<rightharpoonup> nat)" where
  "tally k m = m(k \<mapsto> (case m k of None \<Rightarrow> 0 | Some n \<Rightarrow> n) + 1)"

definition isHighPriority :: "issue \<Rightarrow> bool" where
  "isHighPriority i = (i_priority i \<in> set [''High'', ''Highest'', ''Critical''])"

definition summarizeJira :: "issue list \<Rightarrow> jiraSummary" where
  "summarizeJira issues =
     (if length issues = 0
      then \<lparr>js_count = 0, js_byStatus = Map.empty, js_byPriority = Map.empty,
            js_byType = Map.empty, js_highPriority = None\<rparr>
      else \<lparr>js_count = length issues,
            js_byStatus = fold (\<lambda>i. tally (i_status i)) issues Map.empty,
            js_byPriority = fold (\<lambda>i. tally (i_priority i)) issues Map.empty,
            js_byType = fold (\<lambda>i. tally (i_type i)) issues Map.empty,
            js_highPriority = Some (length (filter isHighPriority issues))\<rparr>)"

definition summarizeGitHub :: "'u githubData \<Rightarrow> githubSummary" where
  "summarizeGitHub githubData =
     (let commits = orEmpty (g_commits githubData);
          prs = orEmpty (g_pullRequests githubData);
          repos = orEmpty (g_repositories githubData)
      in \<lparr>gs_commitCount = length commits,
          gs_prCount = length prs,
          gs_repositoryCount = length repos,
          gs_activeRepositories = map r_name (take 5 repos)\<rparr>)"

text \<open>
  \<open>xs.forEach(f)\<close> where the callback updates a local accumulator and may throw: the
  first exception ends the loop.
\<close>

fun forEach :: "('a \<Rightarrow> 's \<Rightarrow> error + 's) \<Rightarrow> 'a list \<Rightarrow> 's \<Rightarrow> error + 's" where
  "forEach f [] s = Inr s"
| "forEach f (x # xs) s = (case f x s of Inl e \<Rightarrow> Inl e | Inr s' \<Rightarrow> forEach f xs s')"

definition mkPair :: "commit \<Rightarrow> issue \<Rightarrow> linkedPair" where
  "mkPair commit issue =
     \<lparr>lp_commit = \<lparr>lc_sha = c_sha commit, lc_message = c_message commit,
                    lc_date = c_date commit, lc_url = c_url commit,
                    lc_repository = c_repository commit\<rparr>,
      lp_ticket = \<lparr>lt_key = i_key issue, lt_summary = i_summary issue,
                    lt_status = i_status issue, lt_url = i_url issue\<rparr>\<rparr>"

text \<open>
  The body of the inner callback: \<open>issues.find\<close> yields \<open>undefined\<close> when no issue has
  the key, and reading \<open>issue.key\<close> of \<open>undefined\<close> throws a TypeError.
\<close>

definition linkTicket :: "issue list \<Rightarrow> commit \<Rightarrow> string \<Rightarrow> linkedPair list \<Rightarrow> error + linkedPair list" where
  "linkTicket issues commit ticketKey linked =
     (if ticketKey \<in> set (map i_key issues)
      then (case find (\<lambda>i. i_key i = ticketKey) issues of
              None \<Rightarrow> Inl TypeError
            | Some issue \<Rightarrow> Inr (linked @ [mkPair commit issue]))
      else Inr linked)"

definition linkCommitsToTickets :: "commit list \<Rightarrow> issue list \<Rightarrow> error + linkedPair list" where
  "linkCommitsToTickets commits issues =
     forEach (\<lambda>commit. forEach (linkTicket issues commit) (c_jiraTickets commit)) commits []"

text \<open>\<open>timeframe || 'recent'\<close>: a missing window and the number 0 are both falsy.\<close>

definition windowOr :: "int option \<Rightarrow> window" where
  "windowOr t = (case t of None \<Rightarrow> recent | Some d \<Rightarrow> if d = 0 then recent else Days d)"

definition calculateMetrics :: "('u, 'a) jiraData \<Rightarrow> 'v githubData \<Rightarrow> int option \<Rightarrow> metrics" where
  "calculateMetrics jiraData githubData tf =
     (let commits = orEmpty (g_commits githubData);
          issues = orEmpty (j_issues jiraData);
          prs = orEmpty (g_pullRequests githubData);
          score = (length issues * 2) + (length commits * 1) + (length prs * 3)
      in \<lparr>activityScore = score,
          activityLevel = (if score > 20 then high else if score > 10 then medium else low),
          totalItems = length issues + length commits + length prs,
          timeframe = windowOr tf\<rparr>)"

text \<open>Decimal rendering of a count inside a template literal.\<close>

fun showNat :: "nat \<Rightarrow> string" where
  "showNat n = (if n < 10 then [char_of (48 + n)]
                else showNat (n div 10) @ [char_of (48 + n mod 10)])"

declare showNat.simps [simp del]

definition identifyWorkPatterns :: "('u, 'a) jiraData \<Rightarrow> 'v githubData \<Rightarrow> error + pattern list" where
  "identifyWorkPatterns jiraData githubData =
     (let issues = orEmpty (j_issues jiraData);
          commits = orEmpty (g_commits githubData);
          prs = orEmpty (g_pullRequests githubData);
          highPriorityCount = length (filter isHighPriority issues);
          p1 = (if highPriorityCount > 3
                then [\<lparr>p_type = ''multiple_high_priority'',
                       p_description = ''Working on '' @ showNat highPriorityCount @ '' high-priority items'',
                       p_impact = ''high''\<rparr>]
                else []);
          repoCount = length (remdups (map c_repository commits));
          p2 = (if repoCount > 5
                then [\<lparr>p_type = ''multi_repository'',
                       p_description = ''Contributing to '' @ showNat repoCount @ '' different repositories'',
                       p_impact = ''medium''\<rparr>]
                else []);
          p3 = (if length prs > 5
                then [\<lparr>p_type = ''many_open_prs'',
                       p_description = ''Has '' @ showNat (length prs) @ '' open pull requests'',
                       p_impact = ''medium''\<rparr>]
                else [])
      in case linkCommitsToTickets commits issues of
           Inl e \<Rightarrow> Inl e
         | Inr linked \<Rightarrow>
             Inr (p1 @ p2 @ p3 @
                  (if 2 * length linked > length commits
                   then [\<lparr>p_type = ''good_tracking'',
                          p_description = ''Most commits are linked to JIRA tickets'',
                          p_impact = ''positive''\<rparr>]
                   else [])))"

text \<open>
  \<open>enrich\<close> evaluates the object literal field by field, so the first call that throws
  decides the error.
\<close>

definition enrich :: "('u, 'a) jiraData \<Rightarrow> 'v githubData \<Rightarrow> int option \<Rightarrow> error + 'a enriched" where
  "enrich jiraData githubData tf =
     (case linkCommitsToTickets (orEmpty (g_commits githubData)) (orEmpty (j_issues jiraData)) of
        Inl e \<Rightarrow> Inl e
      | Inr linked \<Rightarrow>
          (case identifyWorkPatterns jiraData githubData of
             Inl e \<Rightarrow> Inl e
           | Inr patterns \<Rightarrow>
               Inr \<lparr>e_jira = \<lparr>ej_activeIssues = orEmpty (j_issues jiraData),
                               ej_recentActivity = orEmpty (j_recentActivity jiraData),
                               ej_summary = summarizeJira (orEmpty (j_issues jiraData))\<rparr>,
                    e_github = \<lparr>eg_commits = orEmpty (g_commits githubData),
                                 eg_pullRequests = orEmpty (g_pullRequests githubData),
                                 eg_repositories = orEmpty (g_repositories githubData),
                                 eg_summary = summarizeGitHub githubData\<rparr>,
                    e_linked = linked,
                    e_metrics = calculateMetrics jiraData githubData tf,
                    e_workPatterns = patterns\<rparr>))"

text \<open>
  The pairs one commit contributes, read off the two nested loops: one pair for each of
  its ticket keys that some issue carries, built from the first such issue. Used to state
  what \<open>linkCommitsToTickets\<close> returns.
\<close>

definition linksFor :: "issue list \<Rightarrow> commit \<Rightarrow> linkedPair list" where
  "linksFor issues commit =
     concat (map (\<lambda>k. case find (\<lambda>i. i_key i = k) issues of
                          None \<Rightarrow> []
                        | Some i \<Rightarrow> [mkPair commit i])
                 (c_jiraTickets commit))"

text \<open>Sample records for the concrete instances below.\<close>

definition exIssue :: "string \<Rightarrow> issue" where
  "exIssue k = \<lparr>i_key = k, i_summary = ''s'', i_status = ''Open'', i_priority = ''High'',
     i_type = ''Bug'', i_project = ''P'', i_created = ''2024-01-01'',
     i_updated = ''2024-01-02'', i_url = ''u''\<rparr>"

definition exCommit :: "string \<Rightarrow> string \<Rightarrow> string \<Rightarrow> string list \<Rightarrow> commit" where
  "exCommit h r d ks = \<lparr>c_sha = h, c_message = ''m'', c_author = ''a'', c_date = d,
     c_url = ''u'', c_repository = r, c_jiraTickets = ks\<rparr>"

section \<open>The query handler (the POST /api/query route)\<close>

record jiraUser =
  accountId :: string
  displayName :: string

record ghUser =
  login :: string
  gh_name :: "string option"

text \<open>
  The five activity fetches of the two clients, as the handler sees them: each call
  either resolves to a list of records or rejects with an error.
\<close>

record 'a clients =
  cl_getAssignedIssues :: "string \<Rightarrow> error + issue list"
  cl_getRecentActivity :: "string \<Rightarrow> int \<Rightarrow> error + 'a list"
  cl_getRecentCommits :: "string \<Rightarrow> int \<Rightarrow> error + commit list"
  cl_getActivePullRequests :: "string \<Rightarrow> error + pullRequest list"
  cl_getRecentRepositories :: "string \<Rightarrow> int \<Rightarrow> error + repositoryEntry list"

text \<open>An entry of the array that \<open>Promise.allSettled\<close> resolves to.\<close>

datatype 'a settled = fulfilled 'a | rejected error

definition settle :: "error + 'a \<Rightarrow> 'a settled" where
  "settle r = (case r of Inl e \<Rightarrow> rejected e | Inr v \<Rightarrow> fulfilled v)"

text \<open>\<open>result.status === 'fulfilled' ? result.value : []\<close>\<close>

definition valueOrEmpty :: "'a list settled \<Rightarrow> 'a list" where
  "valueOrEmpty result = (case result of fulfilled v \<Rightarrow> v | rejected e \<Rightarrow> [])"

text \<open>
  \<open>user ? fetch(user) : Promise.resolve([])\<close>: the promise the handler puts into the
  array, by what it settles to.
\<close>

definition whenUser :: "'u option \<Rightarrow> ('u \<Rightarrow> error + 'a list) \<Rightarrow> 'a list settled" where
  "whenUser user fetch = (case user of None \<Rightarrow> fulfilled [] | Some u \<Rightarrow> settle (fetch u))"

text \<open>
  The aggregation step of the handler: the five promises, the extraction of their
  results, and the two bundles prepared for enrichment.
\<close>

definition aggregate ::
  "'a clients \<Rightarrow> jiraUser option \<Rightarrow> ghUser option \<Rightarrow> int
     \<Rightarrow> (jiraUser, 'a) jiraData \<times> ghUser githubData" where
  "aggregate cl jUser gUser tf =
     (let r1 = whenUser jUser (\<lambda>u. cl_getAssignedIssues cl (accountId u));
          r2 = whenUser jUser (\<lambda>u. cl_getRecentActivity cl (accountId u) tf);
          r3 = whenUser gUser (\<lambda>u. cl_getRecentCommits cl (login u) tf);
          r4 = whenUser gUser (\<lambda>u. cl_getActivePullRequests cl (login u));
          r5 = whenUser gUser (\<lambda>u. cl_getRecentRepositories cl (login u) tf);
          jiraIssues = valueOrEmpty r1;
          jiraActivity = valueOrEmpty r2;
          githubCommits = valueOrEmpty r3;
          githubPRs = valueOrEmpty r4;
          githubRepos = valueOrEmpty r5
      in (\<lparr>j_user = jUser, j_issues = Some jiraIssues, j_recentActivity = Some jiraActivity\<rparr>,
          \<lparr>g_user = gUser, g_commits = Some githubCommits, g_pullRequests = Some githubPRs,
            g_repositories = Some githubRepos\<rparr>))"

text \<open>What a fetch contributes when it is looked at alone: its records, or nothing.\<close>

definition recordsOf :: "error + 'a list \<Rightarrow> 'a list" where
  "recordsOf r = (case r of Inl e \<Rightarrow> [] | Inr v \<Rightarrow> v)"

subsection \<open>Errors and their fixed sentences (errors.js, response-generator.js)\<close>

datatype appError =
    UserNotFoundError string
  | NoActivityError string
  | APIError string string
  | OtherError "string option"

record errorResponse =
  er_type :: string
  er_message :: string
  er_userName :: "string option"
  er_platform :: "string option"

text \<open>The double quote, which a string literal cannot hold.\<close>

definition dq :: string where
  "dq = [CHR 0x22]"

definition handleError :: "appError \<Rightarrow> errorResponse" where
  "handleError error =
     (case error of
        UserNotFoundError userName \<Rightarrow>
          \<lparr>er_type = ''USER_NOT_FOUND'', er_message = ''User '' @ dq @ userName @ dq @ '' not found'',
            er_userName = Some userName, er_platform = None\<rparr>
      | NoActivityError userName \<Rightarrow>
          \<lparr>er_type = ''NO_ACTIVITY'',
            er_message = ''No activity found for '' @ dq @ userName @ dq,
            er_userName = Some userName, er_platform = None\<rparr>
      | APIError platform message \<Rightarrow>
          \<lparr>er_type = ''API_ERROR'', er_message = platform @ '' API error: '' @ message,
            er_userName = None, er_platform = Some platform\<rparr>
      | OtherError message \<Rightarrow>
          \<lparr>er_type = ''UNKNOWN_ERROR'',
            er_message = (case message of None \<Rightarrow> ''An unexpected error occurred''
                          | Some m \<Rightarrow> if m = [] then ''An unexpected error occurred'' else m),
            er_userName = None, er_platform = None\<rparr>)"

definition generateErrorResponse :: "errorResponse \<Rightarrow> string \<Rightarrow> string" where
  "generateErrorResponse error userName =
     (if er_type error = ''USER_NOT_FOUND''
      then ''I couldn't find '' @ dq @ userName @ dq @
           '' in JIRA or GitHub. Please check the spelling or try a different name.''
      else if er_type error = ''NO_ACTIVITY''
      then userName @ '' doesn't have any recent activity to show. They might be on vacation or working on something else.''
      else if er_type error = ''API_ERROR''
      then ''I encountered an issue fetching data: '' @ er_message error @
           ''. Please try again in a moment.''
      else ''Sorry, I encountered an error: '' @ er_message error @ ''. Please try again.'')"

subsection \<open>The response generator (response-generator.js)\<close>

text \<open>
  The generator holds whether a generative backend is configured (\<open>useAI\<close>) and the
  backend itself. A request to the backend is an effect on the world outside, of type
  \<open>'w\<close>: \<open>complete\<close> takes the question, the model and the name (from which
  \<open>buildPrompt\<close> makes the prompt), and the world, and gives the completion or the
  failure, and the world after the request. \<open>sections\<close> is the text that the template
  strategy assembles from the model (lines 145 to 213 of the source) before it looks at
  \<open>totalItems\<close>.
\<close>

record ('a, 'w) generator =
  useAI :: bool
  complete :: "string \<Rightarrow> 'a enriched \<Rightarrow> string \<Rightarrow> 'w \<Rightarrow> (error + string) \<times> 'w"
  sections :: "string \<Rightarrow> 'a enriched \<Rightarrow> string \<Rightarrow> string"

definition generateTemplateResponse :: "('a, 'w) generator \<Rightarrow> string \<Rightarrow> 'a enriched \<Rightarrow> string \<Rightarrow> string" where
  "generateTemplateResponse g query enrichedData userName =
     (let response = sections g query enrichedData userName
      in if totalItems (e_metrics enrichedData) = 0
         then userName @ '' doesn't appear to have any recent activity on JIRA or GitHub. '' @
              ''This could mean they're on vacation, working on a different project, or the data might not be synced yet.''
         else response)"

definition generateAIResponse ::
  "('a, 'w) generator \<Rightarrow> string \<Rightarrow> 'a enriched \<Rightarrow> string \<Rightarrow> 'w \<Rightarrow> (error + string) \<times> 'w" where
  "generateAIResponse g query enrichedData userName w = complete g query enrichedData userName w"

definition generateResponse ::
  "('a, 'w) generator \<Rightarrow> string \<Rightarrow> 'a enriched \<Rightarrow> string \<Rightarrow> 'w \<Rightarrow> string \<times> 'w" where
  "generateResponse g query enrichedData userName w =
     (if useAI g
      then (case generateAIResponse g query enrichedData userName w of
              (Inr text, w') \<Rightarrow> (text, w')
            | (Inl error, w') \<Rightarrow> (generateTemplateResponse g query enrichedData userName, w'))
      else (generateTemplateResponse g query enrichedData userName, w))"

text \<open>
  The end of the handler, from the check of the activity count on: the reply carries
  the narrative and, in the no-activity case, the error object.
\<close>

record reply =
  rp_response :: string
  rp_error :: "errorResponse option"

definition respond ::
  "('a, 'w) generator \<Rightarrow> string \<Rightarrow> 'a enriched \<Rightarrow> string \<Rightarrow> 'w \<Rightarrow> reply \<times> 'w" where
  "respond g query enrichedData userName w =
     (if totalItems (e_metrics enrichedData) = 0
      then (let errorResponse = handleError (NoActivityError userName);
                errorMessage = generateErrorResponse errorResponse userName
            in (\<lparr>rp_response = errorMessage, rp_error = Some errorResponse\<rparr>, w))
      else (case generateResponse g query enrichedData userName w of
              (response, w') \<Rightarrow> (\<lparr>rp_response = response, rp_error = None\<rparr>, w')))"

text \<open>The narrative of the no-activity reply.\<close>

definition noActivityText :: "string \<Rightarrow> string" where
  "noActivityText userName =
     userName @ '' doesn't have any recent activity to show. They might be on vacation or working on something else.''"

text \<open>An enriched model with nothing in it, and a generator whose backend always answers.\<close>

definition exEmptyModel :: "unit enriched" where
  "exEmptyModel =
     \<lparr>e_jira = \<lparr>ej_activeIssues = [], ej_recentActivity = [], ej_summary = summarizeJira []\<rparr>,
      e_github = \<lparr>eg_commits = [], eg_pullRequests = [], eg_repositories = [],
                   eg_summary = \<lparr>gs_commitCount = 0, gs_prCount = 0, gs_repositoryCount = 0,
                                  gs_activeRepositories = []\<rparr>\<rparr>,
      e_linked = [],
      e_metrics = \<lparr>activityScore = 0, activityLevel = low, totalItems = 0, timeframe = Days 14\<rparr>,
      e_workPatterns = []\<rparr>"

definition exGenerator :: "(unit, nat) generator" where
  "exGenerator =
     \<lparr>useAI = True,
      complete = (\<lambda>q m u w. (Inr ''a generated summary'', w + 1)),
      sections = (\<lambda>q m u. ''a rendered template'')\<rparr>"

section \<open>Recent repositories (github-client.js)\<close>

text \<open>
  \<open>new Date(s)\<close> is a parameter \<open>D\<close>: the time value of the date text \<open>s\<close>, in
  milliseconds, or \<open>None\<close> when \<open>s\<close> is no date (the time value is then NaN, and every
  comparison with it is false).
\<close>

definition laterThan :: "(string \<Rightarrow> int option) \<Rightarrow> string \<Rightarrow> string \<Rightarrow> bool" where
  "laterThan D a b =
     (case D a of None \<Rightarrow> False
      | Some x \<Rightarrow> (case D b of None \<Rightarrow> False | Some y \<Rightarrow> x > y))"

text \<open>
  The \<open>Map\<close> from repository name to entry is a list of pairs in insertion order, which
  is the order \<open>repos.values()\<close> walks. \<open>mapModify\<close> changes the entry of a key in place,
  as the assignments to the object that \<open>repos.get\<close> returned do.
\<close>

fun mapModify :: "'k \<Rightarrow> ('v \<Rightarrow> 'v) \<Rightarrow> ('k \<times> 'v) list \<Rightarrow> ('k \<times> 'v) list" where
  "mapModify k f [] = []"
| "mapModify k f ((k', v) # m) = (if k' = k then (k', f v) # m else (k', v) # mapModify k f m)"

text \<open>The body of the loop over the commits.\<close>

definition countCommit ::
  "(string \<Rightarrow> int option) \<Rightarrow> commit \<Rightarrow> (string \<times> repositoryEntry) list
     \<Rightarrow> (string \<times> repositoryEntry) list" where
  "countCommit D commit repos =
     (let repos1 =
            (if map_of repos (c_repository commit) = None
             then repos @ [(c_repository commit,
                            \<lparr>r_name = c_repository commit, r_commitCount = 0,
                              r_lastCommit = c_date commit\<rparr>)]
             else repos)
      in mapModify (c_repository commit)
           (\<lambda>repo. let repo1 = repo\<lparr>r_commitCount := r_commitCount repo + 1\<rparr>
                    in if laterThan D (c_date commit) (r_lastCommit repo1)
                       then repo1\<lparr>r_lastCommit := c_date commit\<rparr>
                       else repo1)
           repos1)"

text \<open>
  \<open>sort((a, b) => new Date(b.lastCommit) - new Date(a.lastCommit))\<close>. The sort of an
  array is stable, and with dates that are all valid the comparison is consistent, so its
  result is the one of any stable sort; it is written here as insertion from the right.
  \<open>a\<close> goes behind \<open>b\<close> exactly when the comparison is positive, that is when \<open>b\<close> is
  later than \<open>a\<close>. (With an invalid date the order of the result is left to the engine,
  and this definition fixes one.)
\<close>

fun insertRepo :: "(string \<Rightarrow> int option) \<Rightarrow> repositoryEntry \<Rightarrow> repositoryEntry list \<Rightarrow> repositoryEntry list" where
  "insertRepo D a [] = [a]"
| "insertRepo D a (b # bs) =
     (if laterThan D (r_lastCommit b) (r_lastCommit a) then b # insertRepo D a bs
      else a # b # bs)"

definition sortByLastCommit :: "(string \<Rightarrow> int option) \<Rightarrow> repositoryEntry list \<Rightarrow> repositoryEntry list" where
  "sortByLastCommit D rs = foldr (insertRepo D) rs []"

text \<open>
  \<open>getRecentRepositories\<close>, from the outcome of its call of \<open>getRecentCommits\<close> on: a
  rejection is caught and gives the empty list.
\<close>

definition getRecentRepositories ::
  "(string \<Rightarrow> int option) \<Rightarrow> error + commit list \<Rightarrow> repositoryEntry list" where
  "getRecentRepositories D fetched =
     (case fetched of
        Inl e \<Rightarrow> []
      | Inr commits \<Rightarrow>
          take 10 (sortByLastCommit D (map snd (fold (countCommit D) commits []))))"

text \<open>\<open>a\<close> and \<open>b\<close> are valid dates and \<open>a\<close> is not before \<open>b\<close>.\<close>

definition notBefore :: "(string \<Rightarrow> int option) \<Rightarrow> string \<Rightarrow> string \<Rightarrow> bool" where
  "notBefore D a b =
     (case D a of None \<Rightarrow> False
      | Some x \<Rightarrow> (case D b of None \<Rightarrow> False | Some y \<Rightarrow> y \<le> x))"

text \<open>A date parser that knows three days, for the concrete instances.\<close>

definition exDate :: "string \<Rightarrow> int option" where
  "exDate s =
     (if s = ''2024-01-01T00:00:00Z'' then Some 1704067200000
      else if s = ''2024-01-02T00:00:00Z'' then Some 1704153600000
      else if s = ''2024-01-03T00:00:00Z'' then Some 1704240000000
      else None)"

text \<open>
  For the proofs: the number of commits of a repository, and what holds of the \<open>Map\<close>
  after the loop has run over the commits \<open>cs\<close>.
\<close>

definition countOf :: "string \<Rightarrow> commit list \<Rightarrow> nat" where
  "countOf k cs = length (filter (\<lambda>c. c_repository c = k) cs)"

definition entryOk :: "commit list \<Rightarrow> string \<Rightarrow> repositoryEntry \<Rightarrow> bool" where
  "entryOk cs k e = (r_name e = k \<and> r_commitCount e = countOf k cs \<and> r_lastCommit e \<in> c_date ` set cs)"

definition reposInv :: "commit list \<Rightarrow> (string \<times> repositoryEntry) list \<Rightarrow> bool" where
  "reposInv cs m =
     (distinct (map fst m) \<and> fst ` set m = c_repository ` set cs \<and>
      (\<forall>k e. (k, e) \<in> set m \<longrightarrow> entryOk cs k e))"

definition validDate :: "(string \<Rightarrow> int option) \<Rightarrow> repositoryEntry \<Rightarrow> bool" where
  "validDate D r = (D (r_lastCommit r) \<noteq> None)"

section \<open>The code-host client: identity resolution (github-client.js)\<close>

text \<open>
  \<open>toLowerCase\<close> on a text of code units below 256: the ASCII capitals and the Latin-1
  capitals (all of 192 to 222 but the multiplication sign) move up by 32.
\<close>

definition lowerChar :: "char \<Rightarrow> char" where
  "lowerChar c =
     (let n = (of_char c :: nat)
      in if (65 \<le> n \<and> n \<le> 90) \<or> (192 \<le> n \<and> n \<le> 222 \<and> n \<noteq> 215)
         then char_of (n + 32) else c)"

definition toLowerCase :: "string \<Rightarrow> string" where
  "toLowerCase s = map lowerChar s"

text \<open>
  A request, and what the HTTP transport makes of it. \<open>response.data\<close> is one of the
  shapes the client reads: a user object, a search result (with or without its
  \<open>items\<close>), the rate-limit object with \<open>rate.remaining\<close> and \<open>rate.reset\<close>, nothing
  (a falsy body), or some other object. The transport resolves with a response, or
  rejects with an error that carries the status of the response if there was one.
\<close>

record request =
  rq_url :: string
  rq_params :: "(string \<times> string) list"

datatype payload =
    UserData ghUser
  | SearchData "ghUser list option"
  | RateData int int
  | NoData
  | OtherData

record response =
  rs_data :: payload
  rs_remaining :: "int option"

datatype outcome = Replied response | Failed "nat option"

text \<open>
  The world behind the transport answers a request knowing the requests sent before it.
\<close>

type_synonym network = "request list \<Rightarrow> request \<Rightarrow> outcome"

text \<open>
  The state of a client: its token, its cache (an expired entry is a missing one), the
  two rate-limit fields, the clock (which waiting moves on), and the requests it has
  sent so far.
\<close>

record client =
  apiToken :: "string option"
  cache :: "string \<rightharpoonup> payload"
  rateLimitRemaining :: "int option"
  rateLimitReset :: "int option"
  clock :: int
  sent :: "request list"

text \<open>\<open>this.apiToken && this.apiToken !== 'your-github-personal-access-token'\<close>\<close>

definition tokenConfigured :: "client \<Rightarrow> bool" where
  "tokenConfigured st =
     (case apiToken st of
        None \<Rightarrow> False
      | Some t \<Rightarrow> t \<noteq> [] \<and> t \<noteq> ''your-github-personal-access-token'')"

text \<open>\<open>this.client.get(url, { params })\<close>\<close>

definition httpGet :: "network \<Rightarrow> string \<Rightarrow> (string \<times> string) list \<Rightarrow> client \<Rightarrow> outcome \<times> client" where
  "httpGet net url params st =
     (let rq = \<lparr>rq_url = url, rq_params = params\<rparr>
      in (net (sent st) rq, st\<lparr>sent := sent st @ [rq]\<rparr>))"

text \<open>
  \<open>checkRateLimit\<close> catches everything, also the TypeError of reading \<open>rate.remaining\<close>
  from a body of another shape, so it only changes the state.
\<close>

definition checkRateLimit :: "network \<Rightarrow> client \<Rightarrow> client" where
  "checkRateLimit net st =
     (if \<not> tokenConfigured st then st
      else (case httpGet net ''/rate_limit'' [] st of
              (Replied r, st1) \<Rightarrow>
                (case rs_data r of
                   RateData remaining reset \<Rightarrow>
                     (let st2 = st1\<lparr>rateLimitRemaining := Some remaining,
                                     rateLimitReset := Some (reset * 1000)\<rparr>
                      in if remaining < 10
                         then (let waitTime = reset * 1000 - clock st2
                               in if waitTime > 0 then st2\<lparr>clock := clock st2 + waitTime\<rparr>
                                  else st2)
                         else st2)
                 | _ \<Rightarrow> st1)
            | (Failed status, st1) \<Rightarrow> st1))"

text \<open>
  \<open>makeRequest\<close>: the response, \<open>null\<close> (here \<open>None\<close>) for the statuses 404 and 401,
  and the error thrown again for every other failure.
\<close>

definition makeRequest ::
  "network \<Rightarrow> string \<Rightarrow> (string \<times> string) list \<Rightarrow> client \<Rightarrow> (error + response option) \<times> client" where
  "makeRequest net url params st =
     (let st1 = (if tokenConfigured st then checkRateLimit net st else st)
      in case httpGet net url params st1 of
           (Replied r, st2) \<Rightarrow>
             (Inr (Some r),
              (case rs_remaining r of
                 Some n \<Rightarrow> st2\<lparr>rateLimitRemaining := Some n\<rparr>
               | None \<Rightarrow> st2))
         | (Failed status, st2) \<Rightarrow>
             (if status = Some 404 then (Inr None, st2)
              else if status = Some 401 then (Inr None, st2)
              else (Inl (RequestFailed status), st2)))"

definition truthy :: "payload \<Rightarrow> bool" where
  "truthy d = (d \<noteq> NoData)"

definition findUser :: "network \<Rightarrow> string \<Rightarrow> client \<Rightarrow> (error + payload option) \<times> client" where
  "findUser net username st =
     (if \<not> tokenConfigured st then (Inr None, st)
      else
        (let cacheKey = ''gh-user:'' @ toLowerCase username;
             cached = cache st cacheKey
         in if (case cached of None \<Rightarrow> False | Some c \<Rightarrow> truthy c) then (Inr cached, st)
            else
                (case makeRequest net (''/users/'' @ username) [] st of
                   (Inr response, st1) \<Rightarrow>
                     (case response of
                        Some r \<Rightarrow>
                          (if truthy (rs_data r)
                           then (Inr (Some (rs_data r)),
                                 st1\<lparr>cache := (cache st1)(cacheKey \<mapsto> rs_data r)\<rparr>)
                           else (Inr None, st1))
                      | None \<Rightarrow> (Inr None, st1))
                 | (Inl error, st1) \<Rightarrow>
                     (case makeRequest net ''/search/users'' [(''q'', username)] st1 of
                        (Inr (Some sr), st2) \<Rightarrow>
                          (case rs_data sr of
                             SearchData (Some (user # others)) \<Rightarrow>
                               (Inr (Some (UserData user)),
                                st2\<lparr>cache := (cache st2)(cacheKey \<mapsto> UserData user)\<rparr>)
                           | _ \<Rightarrow> (Inr None, st2))
                      | (Inr None, st2) \<Rightarrow> (Inr None, st2)
                      | (Inl searchError, st2) \<Rightarrow> (Inr None, st2)))))"

text \<open>
  A world for the concrete instances: the account \<open>mayap\<close> belongs to Maya Patel. There
  is no account of the login \<open>Maya Patel\<close>, so the direct lookup of that name answers 404,
  while the user search for it finds her.
\<close>

definition exMaya :: ghUser where
  "exMaya = \<lparr>login = ''mayap'', gh_name = Some ''Maya Patel''\<rparr>"

definition exNet :: network where
  "exNet history rq =
     (if rq_url rq = ''/rate_limit''
      then Replied \<lparr>rs_data = RateData 4990 1704067200, rs_remaining = Some 4990\<rparr>
      else if rq_url rq = ''/users/mayap''
      then Replied \<lparr>rs_data = UserData exMaya, rs_remaining = Some 4989\<rparr>
      else if rq_url rq = ''/search/users'' \<and> rq_params rq = [(''q'', ''Maya Patel'')]
      then Replied \<lparr>rs_data = SearchData (Some [exMaya]), rs_remaining = Some 4989\<rparr>
      else Failed (Some 404))"

definition exClient :: client where
  "exClient = \<lparr>apiToken = Some ''ghp_token'', cache = Map.empty, rateLimitRemaining = None,
                rateLimitReset = None, clock = 1704060000000, sent = []\<rparr>"

section \<open>Regular expressions\<close>

text \<open>
  The character classes of the patterns in the source, on code units below 256:
  \<open>\s\<close> (tab, line feed, vertical tab, form feed, carriage return, space, no-break
  space), \<open>[A-Z]\<close>, \<open>[a-z]\<close>, \<open>\d\<close>, \<open>\w\<close>, and \<open>[A-Z]\<close> under the flag \<open>i\<close>, which
  is the ASCII letters of both cases.
\<close>

definition isSpace :: "char \<Rightarrow> bool" where
  "isSpace c = ((of_char c :: nat) \<in> set [9, 10, 11, 12, 13, 32, 160])"

definition isUpper :: "char \<Rightarrow> bool" where
  "isUpper c = (65 \<le> (of_char c :: nat) \<and> (of_char c :: nat) \<le> 90)"

definition isLower :: "char \<Rightarrow> bool" where
  "isLower c = (97 \<le> (of_char c :: nat) \<and> (of_char c :: nat) \<le> 122)"

definition isDigit :: "char \<Rightarrow> bool" where
  "isDigit c = (48 \<le> (of_char c :: nat) \<and> (of_char c :: nat) \<le> 57)"

definition isLetter :: "char \<Rightarrow> bool" where
  "isLetter c = (isUpper c \<or> isLower c)"

definition isWordChar :: "char \<Rightarrow> bool" where
  "isWordChar c = (isUpper c \<or> isLower c \<or> isDigit c \<or> c = CHR ''_'')"

text \<open>
  Under the flag \<open>i\<close> a character matches an ASCII character of the pattern when both
  have the same canonical form; for that comparison it is enough to move the small ASCII
  letters to their capitals.
\<close>

definition canon :: "char \<Rightarrow> char" where
  "canon c = (if isLower c then char_of ((of_char c :: nat) - 32) else c)"

text \<open>
  The patterns of the source are built from: a literal ASCII text compared under the
  flag \<open>i\<close> (\<open>Lit\<close>), one character of a class (\<open>Chr\<close>), one or more characters of a
  class, as many as possible first (\<open>Plus\<close>), alternatives in their order (\<open>Alt\<close>), a
  sequence (\<open>Seq\<close>), an optional part, tried first (\<open>Opt\<close>), the start \<open>^\<close> and the end
  \<open>$\<close> of the text, and the word boundary \<open>\b\<close>.
\<close>

datatype rx =
    Lit string
  | Chr "char \<Rightarrow> bool"
  | Plus "char \<Rightarrow> bool"
  | Alt "rx list"
  | Seq "rx list"
  | Opt rx
  | Bol
  | Eol
  | Wb

text \<open>Is there a word character at position \<open>i\<close> of \<open>s\<close>?\<close>

definition wordAt :: "string \<Rightarrow> nat \<Rightarrow> bool" where
  "wordAt s i = (i < length s \<and> isWordChar (s ! i))"

text \<open>
  \<open>ends r s i\<close>: the positions where a match of \<open>r\<close> that starts at position \<open>i\<close> of
  \<open>s\<close> can end, in the order in which the backtracking matcher tries them. The match the
  matcher reports is the first of them.
\<close>

fun ends :: "rx \<Rightarrow> string \<Rightarrow> nat \<Rightarrow> nat list" where
  "ends (Lit w) s i =
     (if length w \<le> length s - i \<and> map canon (take (length w) (drop i s)) = map canon w
      then [i + length w] else [])"
| "ends (Chr p) s i = (if i < length s \<and> p (s ! i) then [Suc i] else [])"
| "ends (Plus p) s i = map (\<lambda>k. i + k) (rev [1 ..< Suc (length (takeWhile p (drop i s)))])"
| "ends (Alt rs) s i = concat (map (\<lambda>r. ends r s i) rs)"
| "ends (Seq []) s i = [i]"
| "ends (Seq (r # rs)) s i = concat (map (\<lambda>j. ends (Seq rs) s j) (ends r s i))"
| "ends (Opt r) s i = ends r s i @ [i]"
| "ends Bol s i = (if i = 0 then [i] else [])"
| "ends Eol s i = (if i = length s then [i] else [])"
| "ends Wb s i = (if (0 < i \<and> wordAt s (i - 1)) \<noteq> wordAt s i then [i] else [])"

text \<open>
  The first match at or behind a position: \<open>scan r s i rest\<close> walks the positions from
  \<open>i\<close> on, \<open>rest\<close> being the text from \<open>i\<close> on, and gives the start and the end of the
  match.
\<close>

fun scan :: "rx \<Rightarrow> string \<Rightarrow> nat \<Rightarrow> string \<Rightarrow> (nat \<times> nat) option" where
  "scan r s i [] = (case ends r s i of [] \<Rightarrow> None | j # js \<Rightarrow> Some (i, j))"
| "scan r s i (c # cs) = (case ends r s i of [] \<Rightarrow> scan r s (Suc i) cs | j # js \<Rightarrow> Some (i, j))"

definition search :: "rx \<Rightarrow> string \<Rightarrow> nat \<Rightarrow> (nat \<times> nat) option" where
  "search r s from = (if from > length s then None else scan r s from (drop from s))"

text \<open>
  The successive matches of a pattern with the flag \<open>g\<close>, as \<open>match\<close> and \<open>replace\<close>
  collect them: the search goes on where the last match ended, one position further
  after an empty match. \<open>scanAll r s i resume rest\<close> is at position \<open>i\<close> and skips the
  positions before \<open>resume\<close>.
\<close>

fun scanAll :: "rx \<Rightarrow> string \<Rightarrow> nat \<Rightarrow> nat \<Rightarrow> string \<Rightarrow> (nat \<times> nat) list" where
  "scanAll r s i resume [] =
     (if i < resume then []
      else (case ends r s i of [] \<Rightarrow> [] | j # js \<Rightarrow> [(i, j)]))"
| "scanAll r s i resume (c # cs) =
     (if i < resume then scanAll r s (Suc i) resume cs
      else (case ends r s i of
              [] \<Rightarrow> scanAll r s (Suc i) resume cs
            | j # js \<Rightarrow> (i, j) # scanAll r s (Suc i) (if j = i then Suc i else j) cs))"

definition allMatches :: "rx \<Rightarrow> string \<Rightarrow> (nat \<times> nat) list" where
  "allMatches r s = scanAll r s 0 0 s"

definition substring :: "string \<Rightarrow> nat \<Rightarrow> nat \<Rightarrow> string" where
  "substring s i j = take (j - i) (drop i s)"

text \<open>\<open>s.match(r) || []\<close> for a pattern with the flag \<open>g\<close>: the matched texts.\<close>

definition matchAll :: "rx \<Rightarrow> string \<Rightarrow> string list" where
  "matchAll r s = map (\<lambda>(i, j). substring s i j) (allMatches r s)"

text \<open>
  \<open>s.replace(r, '')\<close> for a pattern with the flag \<open>g\<close>: the text without its matches.
  \<open>cutRanges ms i rest\<close> is at position \<open>i\<close> and drops the characters that lie inside
  one of the matches \<open>ms\<close>.
\<close>

fun cutRanges :: "(nat \<times> nat) list \<Rightarrow> nat \<Rightarrow> string \<Rightarrow> string" where
  "cutRanges ms i [] = []"
| "cutRanges ms i (c # cs) =
     (if list_ex (\<lambda>(a, b). a \<le> i \<and> i < b) ms then cutRanges ms (Suc i) cs
      else c # cutRanges ms (Suc i) cs)"

definition removeAll :: "rx \<Rightarrow> string \<Rightarrow> string" where
  "removeAll r s = cutRanges (allMatches r s) 0 s"

section \<open>Ticket references in a commit message (github-client.js)\<close>

text \<open>\<open>/([A-Z]+-\d+)/gi\<close>\<close>

definition jiraTicketRegex :: rx where
  "jiraTicketRegex = Seq [Plus isLetter, Lit ''-'', Plus isDigit]"

text \<open>\<open>[...new Set(xs)]\<close>: the elements in the order of their first occurrence.\<close>

definition unique :: "'a list \<Rightarrow> 'a list" where
  "unique xs = fold (\<lambda>x acc. if x \<in> set acc then acc else acc @ [x]) xs []"

text \<open>The \<open>jiraTickets\<close> field that \<open>getRecentCommits\<close> computes from a commit message.\<close>

definition jiraTickets :: "string \<Rightarrow> string list" where
  "jiraTickets message = unique (matchAll jiraTicketRegex message)"

section \<open>The query parser (query-parser.js)\<close>

text \<open>
  A pattern object with the flag \<open>g\<close> carries its \<open>lastIndex\<close>, which \<open>test\<close> reads and
  writes. The parser keeps its seven time patterns for its whole life, so their
  \<open>lastIndex\<close> values are the state of the parser.
\<close>

record timePattern =
  tp_pattern :: rx
  tp_lastIndex :: nat
  tp_days :: int

record QueryParser =
  timePatterns :: "timePattern list"
  pk_jira :: "string list"
  pk_github :: "string list"

text \<open>The constructor: every pattern is created with \<open>lastIndex = 0\<close>.\<close>

definition newQueryParser :: QueryParser where
  "newQueryParser =
     \<lparr>timePatterns =
        [\<lparr>tp_pattern = Seq [Lit ''this'', Plus isSpace, Lit ''week''], tp_lastIndex = 0, tp_days = 7\<rparr>,
         \<lparr>tp_pattern = Seq [Lit ''last'', Plus isSpace, Lit ''week''], tp_lastIndex = 0, tp_days = 14\<rparr>,
         \<lparr>tp_pattern = Seq [Lit ''this'', Plus isSpace, Lit ''month''], tp_lastIndex = 0, tp_days = 30\<rparr>,
         \<lparr>tp_pattern = Seq [Lit ''last'', Plus isSpace, Lit ''month''], tp_lastIndex = 0, tp_days = 60\<rparr>,
         \<lparr>tp_pattern = Alt [Lit ''recently'', Lit ''lately'',
                             Seq [Lit ''these'', Plus isSpace, Lit ''days'']],
           tp_lastIndex = 0, tp_days = 14\<rparr>,
         \<lparr>tp_pattern = Lit ''today'', tp_lastIndex = 0, tp_days = 1\<rparr>,
         \<lparr>tp_pattern = Lit ''yesterday'', tp_lastIndex = 0, tp_days = 2\<rparr>],
      pk_jira = [''jira'', ''ticket'', ''issue'', ''task'', ''bug'', ''story''],
      pk_github = [''github'', ''commit'', ''pull request'', ''pr'', ''code'', ''repository'', ''repo'']\<rparr>"

text \<open>
  \<open>pattern.test(s)\<close> on a pattern with the flag \<open>g\<close>: the search starts at \<open>lastIndex\<close>;
  a match moves \<open>lastIndex\<close> to its end, a failure (also when \<open>lastIndex\<close> is beyond the
  text) sets it to 0. The result comes with the new \<open>lastIndex\<close>.
\<close>

definition test :: "rx \<Rightarrow> nat \<Rightarrow> string \<Rightarrow> bool \<times> nat" where
  "test r lastIndex s =
     (case search r s lastIndex of None \<Rightarrow> (False, 0) | Some (i, j) \<Rightarrow> (True, j))"

text \<open>\<open>test\<close> on a pattern without the flag \<open>g\<close>: the search starts at 0, nothing is kept.\<close>

definition testOnce :: "rx \<Rightarrow> string \<Rightarrow> bool" where
  "testOnce r s = (search r s 0 \<noteq> None)"

text \<open>\<open>s.match(r)\<close> on a pattern without the flag \<open>g\<close>: the text of the first match.\<close>

definition matchFirst :: "rx \<Rightarrow> string \<Rightarrow> string option" where
  "matchFirst r s = (case search r s 0 of None \<Rightarrow> None | Some (i, j) \<Rightarrow> Some (substring s i j))"

definition trim :: "string \<Rightarrow> string" where
  "trim s = rev (dropWhile isSpace (rev (dropWhile isSpace s)))"

text \<open>
  \<open>s.split(/\s+/)\<close>: the pieces between the runs of white space; a run at the start or
  at the end leaves an empty piece there, and the empty text gives one empty piece.
  \<open>cur\<close> is the piece being read, \<open>inSep\<close> says that the position is inside a run.
\<close>

fun splitWs :: "string \<Rightarrow> bool \<Rightarrow> string \<Rightarrow> string list" where
  "splitWs cur inSep [] = [cur]"
| "splitWs cur inSep (c # cs) =
     (if isSpace c
      then (if inSep then splitWs cur True cs else cur # splitWs [] True cs)
      else splitWs (cur @ [c]) False cs)"

definition split :: "string \<Rightarrow> string list" where
  "split s = splitWs [] False s"

text \<open>\<open>xs.join(' ')\<close>\<close>

fun join :: "string list \<Rightarrow> string" where
  "join [] = []"
| "join [x] = x"
| "join (x # y # ys) = x @ '' '' @ join (y # ys)"

text \<open>\<open>s.includes(sub)\<close>\<close>

fun includesText :: "string \<Rightarrow> string \<Rightarrow> bool" where
  "includesText [] sub = (sub = [])"
| "includesText (c # cs) sub = (take (length sub) (c # cs) = sub \<or> includesText cs sub)"

definition isCommonWord :: "string \<Rightarrow> bool" where
  "isCommonWord word =
     (toLowerCase word \<in> set
        [''what'', ''show'', ''tell'', ''give'', ''list'', ''find'', ''is'', ''has'', ''have'',
         ''was'', ''were'', ''does'', ''did'', ''working'', ''been'', ''doing'', ''up'', ''on'',
         ''committed'', ''created'', ''recent'', ''recently'', ''lately'', ''these'', ''days'',
         ''week'', ''month'', ''jira'', ''github'', ''ticket'', ''issue'', ''commit'', ''pull'',
         ''request'', ''pr'', ''code'', ''repository'', ''repo''])"

text \<open>The three patterns that \<open>extractName\<close> removes, and its two patterns for names.\<close>

definition questionWords :: rx where
  "questionWords =
     Seq [Bol, Alt [Lit ''what'', Lit ''show'', Lit ''tell'', Lit ''give'', Lit ''list'', Lit ''find''],
          Plus isSpace, Opt (Alt [Lit ''me'', Lit ''us''])]"

definition auxiliaryVerbs :: rx where
  "auxiliaryVerbs =
     Seq [Bol, Alt [Lit ''is'', Lit ''has'', Lit ''have'', Lit ''was'', Lit ''were'', Lit ''does'',
                    Lit ''did''],
          Plus isSpace]"

definition activityWords :: rx where
  "activityWords =
     Seq [Plus isSpace,
          Alt [Lit ''working'', Lit ''been'', Lit ''doing'', Lit ''up'', Lit ''on'',
               Lit ''committed'', Lit ''created'']]"

definition nameWord :: rx where
  "nameWord = Seq [Bol, Chr isUpper, Plus isLower, Eol]"

definition nameRun :: rx where
  "nameRun = Seq [Wb, Chr isUpper, Plus isLower,
                  Opt (Seq [Plus isSpace, Chr isUpper, Plus isLower]), Wb]"

text \<open>The loop over the words, with its \<open>break\<close> at the third candidate.\<close>

fun nameCandidates :: "string list \<Rightarrow> string list \<Rightarrow> string list" where
  "nameCandidates [] found = found"
| "nameCandidates (word # ws) found =
     (if testOnce nameWord word \<and> \<not> isCommonWord word
      then (if length (found @ [word]) \<ge> 3 then found @ [word]
            else nameCandidates ws (found @ [word]))
      else nameCandidates ws found)"

definition extractName :: "string \<Rightarrow> string option" where
  "extractName query =
     (let cleaned = trim (removeAll activityWords
                            (removeAll auxiliaryVerbs (removeAll questionWords query)));
          words = split cleaned;
          found = nameCandidates words []
      in if length found > 0 then Some (join found)
         else matchFirst nameRun cleaned)"

text \<open>
  The loop of \<open>extractTimeframe\<close> over the time patterns: the result, and the patterns
  with the \<open>lastIndex\<close> values that the calls of \<open>test\<close> leave behind.
\<close>

fun testPatterns :: "timePattern list \<Rightarrow> string \<Rightarrow> int option \<times> timePattern list" where
  "testPatterns [] query = (None, [])"
| "testPatterns (p # ps) query =
     (case test (tp_pattern p) (tp_lastIndex p) query of
        (True, li) \<Rightarrow> (Some (tp_days p), p\<lparr>tp_lastIndex := li\<rparr> # ps)
      | (False, li) \<Rightarrow>
          (case testPatterns ps query of
             (result, ps') \<Rightarrow> (result, p\<lparr>tp_lastIndex := li\<rparr> # ps')))"

definition extractTimeframe :: "QueryParser \<Rightarrow> string \<Rightarrow> int option \<times> QueryParser" where
  "extractTimeframe this query =
     (case testPatterns (timePatterns this) query of
        (result, ps) \<Rightarrow> (result, this\<lparr>timePatterns := ps\<rparr>))"

definition extractIntent :: "string \<Rightarrow> string" where
  "extractIntent query =
     (let normalized = toLowerCase query
      in if includesText normalized ''pull request'' \<or> includesText normalized ''pr'' then ''pull_requests''
         else if includesText normalized ''commit'' then ''commits''
         else if includesText normalized ''ticket'' \<or> includesText normalized ''issue'' then ''jira_issues''
         else if includesText normalized ''repository'' \<or> includesText normalized ''repo'' then ''repositories''
         else ''general'')"

definition extractPlatform :: "QueryParser \<Rightarrow> string \<Rightarrow> string" where
  "extractPlatform this query =
     (let normalized = toLowerCase query;
          jiraScore = length (filter (\<lambda>kw. includesText normalized kw) (pk_jira this));
          githubScore = length (filter (\<lambda>kw. includesText normalized kw) (pk_github this))
      in if jiraScore > githubScore then ''jira''
         else if githubScore > jiraScore then ''github''
         else ''both'')"

record ParsedQuery =
  pq_originalQuery :: string
  pq_name :: "string option"
  pq_timeframe :: "int option"
  pq_intent :: string
  pq_platform :: string

text \<open>\<open>parse\<close>: the parsed query, and the parser as the call leaves it.\<close>

definition parse :: "QueryParser \<Rightarrow> string \<Rightarrow> ParsedQuery \<times> QueryParser" where
  "parse this query =
     (case extractTimeframe this query of
        (tf, this') \<Rightarrow>
          (\<lparr>pq_originalQuery = query,
            pq_name = extractName query,
            pq_timeframe = tf,
            pq_intent = extractIntent query,
            pq_platform = extractPlatform this' query\<rparr>, this'))"

text \<open>Two calls of \<open>parse\<close> in sequence on the same parser.\<close>

definition parseTwice :: "QueryParser \<Rightarrow> string \<Rightarrow> ParsedQuery \<times> ParsedQuery" where
  "parseTwice this query =
     (case parse this query of
        (first, this') \<Rightarrow> (case parse this' query of (second, this'') \<Rightarrow> (first, second)))"

text \<open>A parser whose time patterns stand at the given \<open>lastIndex\<close> values.\<close>

definition withLastIndex :: "nat list \<Rightarrow> QueryParser \<Rightarrow> QueryParser" where
  "withLastIndex lis this =
     this\<lparr>timePatterns := map (\<lambda>(p, li). p\<lparr>tp_lastIndex := li\<rparr>) (zip (timePatterns this) lis)\<rparr>"

text \<open>The question of the concrete instance.\<close>

definition exQuery :: string where
  "exQuery = ''What has Maya been working on this week?''"

section \<open>Properties of the enrichment engine\<close>

lemma find_key_None: "(find (\<lambda>i. i_key i = k) issues = None) = (k \<notin> set (map i_key issues))"
  by (auto simp: find_None_iff)

lemma find_key_Some:
  "find (\<lambda>i. i_key i = k) issues = Some i \<Longrightarrow> i \<in> set issues \<and> i_key i = k"
  by (induction issues) (auto split: if_splits)

lemma forEach_linkTicket:
  "forEach (linkTicket issues c) ks acc =
     Inr (acc @ concat (map (\<lambda>k. case find (\<lambda>i. i_key i = k) issues of
                                     None \<Rightarrow> []
                                   | Some i \<Rightarrow> [mkPair c i]) ks))"
proof (induction ks arbitrary: acc)
  case Nil
  show ?case by simp
next
  case (Cons k ks)
  show ?case
  proof (cases "find (\<lambda>i. i_key i = k) issues")
    case None
    then have "k \<notin> set (map i_key issues)" by (simp add: find_key_None)
    then show ?thesis using None Cons.IH by (simp add: linkTicket_def)
  next
    case (Some i)
    then have "k \<in> set (map i_key issues)" using find_key_None[of k issues] by simp
    then show ?thesis using Some Cons.IH by (simp add: linkTicket_def)
  qed
qed

lemma forEach_commits:
  "forEach (\<lambda>commit. forEach (linkTicket issues commit) (c_jiraTickets commit)) cs acc =
     Inr (acc @ concat (map (linksFor issues) cs))"
  by (induction cs arbitrary: acc) (simp_all add: forEach_linkTicket linksFor_def)

lemma linkCommitsToTickets_Inr:
  "linkCommitsToTickets cs issues = Inr (concat (map (linksFor issues) cs))"
  by (simp add: linkCommitsToTickets_def forEach_commits)

lemma linksFor_key:
  assumes "p \<in> set (linksFor issues c)"
  shows "lt_key (lp_ticket p) \<in> set (map i_key issues)"
proof -
  from assms obtain k where
    p: "p \<in> set (case find (\<lambda>i. i_key i = k) issues of None \<Rightarrow> [] | Some i \<Rightarrow> [mkPair c i])"
    unfolding linksFor_def by auto
  show ?thesis
  proof (cases "find (\<lambda>i. i_key i = k) issues")
    case None
    with p show ?thesis by simp
  next
    case (Some i)
    with p have "p = mkPair c i" by simp
    moreover have "i \<in> set issues" using find_key_Some[OF Some] by simp
    ultimately show ?thesis by (simp add: mkPair_def)
  qed
qed

lemma mset_concat_map: "mset (concat (map f xs)) = (\<Sum>x\<in>#mset xs. mset (f x))"
  by (induction xs) simp_all

lemma identifyWorkPatterns_Inr: "\<exists>ps. identifyWorkPatterns jd gd = Inr ps"
  by (simp add: identifyWorkPatterns_def Let_def linkCommitsToTickets_Inr)

lemma enrich_Inr:
  "\<exists>m. enrich jd gd tf = Inr m \<and> e_metrics m = calculateMetrics jd gd tf
      \<and> ej_activeIssues (e_jira m) = orEmpty (j_issues jd)
      \<and> ej_recentActivity (e_jira m) = orEmpty (j_recentActivity jd)
      \<and> eg_commits (e_github m) = orEmpty (g_commits gd)
      \<and> eg_pullRequests (e_github m) = orEmpty (g_pullRequests gd)
      \<and> eg_repositories (e_github m) = orEmpty (g_repositories gd)"
proof -
  obtain ps where "identifyWorkPatterns jd gd = Inr ps"
    using identifyWorkPatterns_Inr by blast
  then show ?thesis by (simp add: enrich_def linkCommitsToTickets_Inr)
qed

text \<open>
  Claim C2. For every pair of bundles, whichever of the lists are present or empty,
  \<open>totalItems\<close> of the metrics is the number of issues plus the number of commits plus
  the number of pull requests; \<open>enrich\<close> returns a model whose metrics carry exactly that
  sum of its three record lists; and the repository list has no influence on it.
\<close>

theorem totalItems_is_sum:
  "totalItems (calculateMetrics jd gd tf) =
     length (orEmpty (j_issues jd)) + length (orEmpty (g_commits gd)) + length (orEmpty (g_pullRequests gd))
   \<and> (\<exists>m. enrich jd gd tf = Inr m \<and>
          totalItems (e_metrics m) =
            length (ej_activeIssues (e_jira m)) + length (eg_commits (e_github m))
              + length (eg_pullRequests (e_github m)))
   \<and> totalItems (calculateMetrics jd (gd\<lparr>g_repositories := rs\<rparr>) tf) = totalItems (calculateMetrics jd gd tf)"
proof -
  have a: "totalItems (calculateMetrics jd gd tf) =
     length (orEmpty (j_issues jd)) + length (orEmpty (g_commits gd)) + length (orEmpty (g_pullRequests gd))"
    by (simp add: calculateMetrics_def Let_def)
  have c: "totalItems (calculateMetrics jd (gd\<lparr>g_repositories := rs\<rparr>) tf) = totalItems (calculateMetrics jd gd tf)"
    by (simp add: calculateMetrics_def Let_def)
  obtain m where m: "enrich jd gd tf = Inr m" "e_metrics m = calculateMetrics jd gd tf"
      "ej_activeIssues (e_jira m) = orEmpty (j_issues jd)"
      "eg_commits (e_github m) = orEmpty (g_commits gd)"
      "eg_pullRequests (e_github m) = orEmpty (g_pullRequests gd)"
    using enrich_Inr[of jd gd tf] by blast
  have b: "\<exists>m. enrich jd gd tf = Inr m \<and>
          totalItems (e_metrics m) =
            length (ej_activeIssues (e_jira m)) + length (eg_commits (e_github m))
              + length (eg_pullRequests (e_github m))"
    using m a by simp
  show ?thesis using a b c by blast
qed

text \<open>
  Claim C3. The activity score is twice the issue count plus the commit count plus three
  times the pull-request count, and the level is \<open>high\<close> exactly for a score above 20,
  \<open>medium\<close> exactly for a score above 10 and at most 20, \<open>low\<close> exactly for a score of
  at most 10 (so 10 is low, 11 and 20 are medium, 21 is high).
\<close>

theorem activity_score_level:
  "(let m = calculateMetrics jd gd tf;
        i = length (orEmpty (j_issues jd));
        c = length (orEmpty (g_commits gd));
        p = length (orEmpty (g_pullRequests gd))
    in activityScore m = 2 * i + 1 * c + 3 * p
     \<and> (activityLevel m = high) = (activityScore m > 20)
     \<and> (activityLevel m = medium) = (10 < activityScore m \<and> activityScore m \<le> 20)
     \<and> (activityLevel m = low) = (activityScore m \<le> 10))"
  by (simp add: calculateMetrics_def Let_def)

text \<open>
  Claim C8. \<open>linkCommitsToTickets\<close> returns a list of pairs for every commit list and
  issue list; the ticket of every pair carries the key of an issue of the given list; and
  a permutation of the commit list yields the same multiset of pairs.
\<close>

theorem linkCommitsToTickets_links:
  assumes "mset cs' = mset cs"
  shows "\<exists>ps qs. linkCommitsToTickets cs issues = Inr ps \<and>
                 linkCommitsToTickets cs' issues = Inr qs \<and>
                 mset qs = mset ps \<and>
                 (\<forall>p \<in> set ps. lt_key (lp_ticket p) \<in> set (map i_key issues))"
proof -
  have "mset (concat (map (linksFor issues) cs')) = mset (concat (map (linksFor issues) cs))"
    using assms by (simp add: mset_concat_map)
  moreover have "\<forall>p \<in> set (concat (map (linksFor issues) cs)). lt_key (lp_ticket p) \<in> set (map i_key issues)"
    using linksFor_key by fastforce
  ultimately show ?thesis by (simp add: linkCommitsToTickets_Inr)
qed

text \<open>An instance: two commits in both orders, one of their three ticket keys unknown.\<close>

theorem linkCommitsToTickets_links_witness:
  "mset [exCommit ''b'' ''r'' ''d'' [''X-9''], exCommit ''a'' ''r'' ''d'' [''AB-1'', ''CD-2'']]
     = mset [exCommit ''a'' ''r'' ''d'' [''AB-1'', ''CD-2''], exCommit ''b'' ''r'' ''d'' [''X-9'']]
   \<and> (\<exists>ps qs. linkCommitsToTickets [exCommit ''a'' ''r'' ''d'' [''AB-1'', ''CD-2''], exCommit ''b'' ''r'' ''d'' [''X-9'']]
                   [exIssue ''AB-1'', exIssue ''X-9''] = Inr ps \<and>
                 linkCommitsToTickets [exCommit ''b'' ''r'' ''d'' [''X-9''], exCommit ''a'' ''r'' ''d'' [''AB-1'', ''CD-2'']]
                   [exIssue ''AB-1'', exIssue ''X-9''] = Inr qs \<and>
                 mset qs = mset ps \<and> length ps = 2 \<and>
                 (\<forall>p \<in> set ps. lt_key (lp_ticket p) \<in> set (map i_key [exIssue ''AB-1'', exIssue ''X-9''])))"
proof -
  have h: "mset [exCommit ''b'' ''r'' ''d'' [''X-9''], exCommit ''a'' ''r'' ''d'' [''AB-1'', ''CD-2'']]
     = mset [exCommit ''a'' ''r'' ''d'' [''AB-1'', ''CD-2''], exCommit ''b'' ''r'' ''d'' [''X-9'']]"
    by simp
  have l: "length (concat (map (linksFor [exIssue ''AB-1'', exIssue ''X-9''])
       [exCommit ''a'' ''r'' ''d'' [''AB-1'', ''CD-2''], exCommit ''b'' ''r'' ''d'' [''X-9'']])) = 2"
    by (simp add: linksFor_def exCommit_def exIssue_def)
  show ?thesis
    using h l linkCommitsToTickets_links[OF h, of "[exIssue ''AB-1'', exIssue ''X-9'']"]
    by (simp add: linkCommitsToTickets_Inr)
qed

text \<open>
  Claim C9. \<open>enrich\<close> returns a model for every pair of bundles, whichever of the five
  list fields are missing; the model is the one it returns when each missing field is
  replaced by the empty list, and its five lists are the given ones, empty where missing.
\<close>

theorem enrich_total_absent_fields:
  "\<exists>m. enrich jd gd tf = Inr m
     \<and> enrich (jd\<lparr>j_issues := Some (orEmpty (j_issues jd)),
                   j_recentActivity := Some (orEmpty (j_recentActivity jd))\<rparr>)
               (gd\<lparr>g_commits := Some (orEmpty (g_commits gd)),
                   g_pullRequests := Some (orEmpty (g_pullRequests gd)),
                   g_repositories := Some (orEmpty (g_repositories gd))\<rparr>) tf = Inr m
     \<and> ej_activeIssues (e_jira m) = orEmpty (j_issues jd)
     \<and> ej_recentActivity (e_jira m) = orEmpty (j_recentActivity jd)
     \<and> eg_commits (e_github m) = orEmpty (g_commits gd)
     \<and> eg_pullRequests (e_github m) = orEmpty (g_pullRequests gd)
     \<and> eg_repositories (e_github m) = orEmpty (g_repositories gd)"
proof -
  let ?jd = "jd\<lparr>j_issues := Some (orEmpty (j_issues jd)),
                   j_recentActivity := Some (orEmpty (j_recentActivity jd))\<rparr>"
  let ?gd = "gd\<lparr>g_commits := Some (orEmpty (g_commits gd)),
                   g_pullRequests := Some (orEmpty (g_pullRequests gd)),
                   g_repositories := Some (orEmpty (g_repositories gd))\<rparr>"
  have p: "identifyWorkPatterns ?jd ?gd = identifyWorkPatterns jd gd"
    by (simp add: identifyWorkPatterns_def orEmpty_def)
  have c: "calculateMetrics ?jd ?gd tf = calculateMetrics jd gd tf"
    by (simp add: calculateMetrics_def orEmpty_def)
  have s: "summarizeGitHub ?gd = summarizeGitHub gd"
    by (simp add: summarizeGitHub_def orEmpty_def)
  obtain ps where ps: "identifyWorkPatterns jd gd = Inr ps"
    using identifyWorkPatterns_Inr by blast
  have o: "\<And>xs. orEmpty (Some xs) = xs"
    by (simp add: orEmpty_def)
  have e: "enrich ?jd ?gd tf = enrich jd gd tf"
    by (simp add: enrich_def linkCommitsToTickets_Inr p c s ps o)
  show ?thesis using enrich_Inr[of jd gd tf] e by auto
qed

section \<open>Properties of the query handler\<close>

text \<open>
  Claim C6. Whatever the five fetches do, each list of the two bundles is decided by its
  own fetch alone: the records of that fetch, unchanged, when it succeeds, and the empty
  list when it fails (or when its user is not resolved). No list depends on the outcome of
  another fetch.
\<close>

theorem aggregate_isolates_failures:
  "aggregate cl jUser gUser tf =
     (\<lparr>j_user = jUser,
       j_issues = Some (case jUser of None \<Rightarrow> [] | Some u \<Rightarrow> recordsOf (cl_getAssignedIssues cl (accountId u))),
       j_recentActivity = Some (case jUser of None \<Rightarrow> [] | Some u \<Rightarrow> recordsOf (cl_getRecentActivity cl (accountId u) tf))\<rparr>,
      \<lparr>g_user = gUser,
       g_commits = Some (case gUser of None \<Rightarrow> [] | Some u \<Rightarrow> recordsOf (cl_getRecentCommits cl (login u) tf)),
       g_pullRequests = Some (case gUser of None \<Rightarrow> [] | Some u \<Rightarrow> recordsOf (cl_getActivePullRequests cl (login u))),
       g_repositories = Some (case gUser of None \<Rightarrow> [] | Some u \<Rightarrow> recordsOf (cl_getRecentRepositories cl (login u) tf))\<rparr>)
   \<and> recordsOf (Inr v) = v \<and> recordsOf (Inl e) = ([] :: 'b list)"
  by (simp add: aggregate_def whenUser_def settle_def valueOrEmpty_def recordsOf_def
      split: option.splits sum.splits)

text \<open>
  Claim C7. For every question, name and enriched model with \<open>totalItems = 0\<close>, and for
  every generator (backend configured or not, whatever the backend and the template
  would produce), the handler replies with the fixed no-activity sentence and the
  \<open>NO_ACTIVITY\<close> error object, and the world outside is left as it was: neither strategy
  of the generator takes part.
\<close>

theorem respond_no_activity:
  assumes "totalItems (e_metrics enrichedData) = 0"
  shows "respond g query enrichedData userName w =
           (\<lparr>rp_response = noActivityText userName,
             rp_error = Some (handleError (NoActivityError userName))\<rparr>, w)"
  using assms by (simp add: respond_def handleError_def generateErrorResponse_def noActivityText_def)

text \<open>An instance, with a backend that would answer and would leave a trace.\<close>

theorem respond_no_activity_witness:
  "totalItems (e_metrics exEmptyModel) = 0 \<and>
   respond exGenerator ''What is Maya working on?'' exEmptyModel ''Maya'' (0::nat) =
     (\<lparr>rp_response = ''Maya doesn't have any recent activity to show. They might be on vacation or working on something else.'',
       rp_error = Some \<lparr>er_type = ''NO_ACTIVITY'', er_message = ''No activity found for '' @ dq @ ''Maya'' @ dq,
                         er_userName = Some ''Maya'', er_platform = None\<rparr>\<rparr>, 0)"
proof -
  have h: "totalItems (e_metrics exEmptyModel) = 0"
    by (simp add: exEmptyModel_def)
  show ?thesis
    using h respond_no_activity[OF h, of exGenerator "''What is Maya working on?''" "''Maya''" 0]
    by (simp add: noActivityText_def handleError_def)
qed

text \<open>
  The gate is the handler's: \<open>generateResponse\<close> itself, called on the same empty model
  with a backend configured, asks the backend.
\<close>

lemma generateResponse_uses_backend:
  "generateResponse exGenerator ''q'' exEmptyModel ''Maya'' 0 = (''a generated summary'', 1)"
  by (simp add: generateResponse_def generateAIResponse_def exGenerator_def)

section \<open>Properties of the repository list\<close>

lemma mapModify_keys: "map fst (mapModify k f m) = map fst m"
  by (induction m) auto

lemma mapModify_set:
  assumes "distinct (map fst m)"
  shows "set (mapModify k f m) =
           {(k', v). (k', v) \<in> set m \<and> k' \<noteq> k} \<union> {(k, f v) | v. (k, v) \<in> set m}"
  using assms
proof (induction m)
  case Nil
  show ?case by simp
next
  case (Cons p m)
  obtain k' v where p: "p = (k', v)" by (cases p)
  show ?case
  proof (cases "k' = k")
    case True
    then have "\<forall>v'. (k, v') \<notin> set m" using Cons.prems p by (auto simp: image_iff)
    then show ?thesis using True p by auto
  next
    case False
    then show ?thesis using Cons p by auto
  qed
qed

lemma countOf_zero: "k \<notin> c_repository ` set cs \<Longrightarrow> countOf k cs = 0"
  by (auto simp: countOf_def filter_empty_conv)

lemma countOf_snoc: "countOf k (cs @ [c]) = countOf k cs + (if c_repository c = k then 1 else 0)"
  by (simp add: countOf_def)

lemma countCommit_inv:
  assumes "reposInv cs m"
  shows "reposInv (cs @ [c]) (countCommit D c m)"
proof -
  let ?k = "c_repository c"
  let ?new = "\<lparr>r_name = ?k, r_commitCount = 0, r_lastCommit = c_date c\<rparr>"
  let ?m1 = "if map_of m ?k = None then m @ [(?k, ?new)] else m"
  let ?f = "\<lambda>repo. let repo1 = repo\<lparr>r_commitCount := r_commitCount repo + 1\<rparr>
                    in if laterThan D (c_date c) (r_lastCommit repo1)
                       then repo1\<lparr>r_lastCommit := c_date c\<rparr>
                       else repo1"
  have d: "distinct (map fst m)" and ks: "fst ` set m = c_repository ` set cs"
    using assms by (simp_all add: reposInv_def)
  have e: "\<And>k e. (k, e) \<in> set m \<Longrightarrow> entryOk cs k e"
    using assms by (simp add: reposInv_def)
  have d1: "distinct (map fst ?m1)"
    using d by (auto simp: map_of_eq_None_iff)
  have ks1: "fst ` set ?m1 = c_repository ` set (cs @ [c])"
    using ks by (auto simp: map_of_eq_None_iff)
  have e1: "r_name e = k \<and> r_commitCount e = countOf k cs \<and> r_lastCommit e \<in> c_date ` set (cs @ [c])"
    if ke: "(k, e) \<in> set ?m1" for k e
  proof (cases "(k, e) \<in> set m")
    case True
    then show ?thesis using e[OF True] by (auto simp: entryOk_def)
  next
    case False
    then have n: "map_of m ?k = None" and k: "k = ?k" and en: "e = ?new"
      using ke by (auto split: if_splits)
    have "?k \<notin> c_repository ` set cs" using n ks by (simp add: map_of_eq_None_iff)
    then have "countOf ?k cs = 0" by (rule countOf_zero)
    then show ?thesis using k en by simp
  qed
  have cc: "countCommit D c m = mapModify ?k ?f ?m1"
    by (simp add: countCommit_def Let_def)
  have s: "set (mapModify ?k ?f ?m1) =
             {(k', v). (k', v) \<in> set ?m1 \<and> k' \<noteq> ?k} \<union> {(?k, ?f v) | v. (?k, v) \<in> set ?m1}"
    by (rule mapModify_set[OF d1])
  have e2: "entryOk (cs @ [c]) k e'" if ke: "(k, e') \<in> set (mapModify ?k ?f ?m1)" for k e'
  proof -
    from ke s consider (other) "(k, e') \<in> set ?m1" "k \<noteq> ?k"
      | (same) v where "k = ?k" "e' = ?f v" "(?k, v) \<in> set ?m1"
      by auto
    then show ?thesis
    proof cases
      case other
      then show ?thesis using e1[OF other(1)] by (simp add: entryOk_def countOf_snoc)
    next
      case same
      then show ?thesis using e1[OF same(3)] by (simp add: entryOk_def countOf_snoc Let_def)
    qed
  qed
  have "distinct (map fst (mapModify ?k ?f ?m1))"
    using d1 by (simp only: mapModify_keys)
  moreover have "fst ` set (mapModify ?k ?f ?m1) = c_repository ` set (cs @ [c])"
    using ks1 mapModify_keys[of ?k ?f ?m1] by (metis list.set_map)
  ultimately show ?thesis
    unfolding reposInv_def cc using e2 by blast
qed

lemma fold_countCommit_inv: "reposInv cs (fold (countCommit D) cs [])"
proof (induction cs rule: rev_induct)
  case Nil
  show ?case by (simp add: reposInv_def)
next
  case (snoc c cs)
  then show ?case by (simp add: countCommit_inv)
qed

lemma set_insertRepo: "set (insertRepo D a bs) = insert a (set bs)"
  by (induction bs) auto

lemma length_insertRepo: "length (insertRepo D a bs) = Suc (length bs)"
  by (induction bs) auto

lemma set_sortByLastCommit: "set (sortByLastCommit D rs) = set rs"
  by (induction rs) (simp_all add: sortByLastCommit_def set_insertRepo)

lemma length_sortByLastCommit: "length (sortByLastCommit D rs) = length rs"
  by (induction rs) (simp_all add: sortByLastCommit_def length_insertRepo)

lemma sorted_insertRepo:
  assumes "sorted_wrt (\<lambda>a b. notBefore D (r_lastCommit a) (r_lastCommit b)) bs"
    and "validDate D a" and "\<forall>b \<in> set bs. validDate D b"
  shows "sorted_wrt (\<lambda>a b. notBefore D (r_lastCommit a) (r_lastCommit b)) (insertRepo D a bs)"
  using assms
proof (induction bs)
  case Nil
  show ?case by simp
next
  case (Cons b bs)
  obtain x where x: "D (r_lastCommit a) = Some x"
    using Cons.prems(2) by (auto simp: validDate_def)
  obtain y where y: "D (r_lastCommit b) = Some y"
    using Cons.prems(3) by (auto simp: validDate_def)
  show ?case
  proof (cases "laterThan D (r_lastCommit b) (r_lastCommit a)")
    case True
    then have "notBefore D (r_lastCommit b) (r_lastCommit a)"
      using x y by (simp add: laterThan_def notBefore_def)
    then show ?thesis using True Cons by (simp add: set_insertRepo)
  next
    case False
    then have xy: "y \<le> x" using x y by (simp add: laterThan_def)
    have "notBefore D (r_lastCommit a) (r_lastCommit z)" if "z \<in> set bs" for z
    proof -
      have "notBefore D (r_lastCommit b) (r_lastCommit z)" using Cons.prems(1) that by simp
      then show ?thesis using x y xy by (auto simp: notBefore_def split: option.splits)
    qed
    moreover have "notBefore D (r_lastCommit a) (r_lastCommit b)"
      using x y xy by (simp add: notBefore_def)
    ultimately show ?thesis using False Cons.prems(1) by simp
  qed
qed

lemma sorted_sortByLastCommit:
  assumes "\<forall>r \<in> set rs. validDate D r"
  shows "sorted_wrt (\<lambda>a b. notBefore D (r_lastCommit a) (r_lastCommit b)) (sortByLastCommit D rs)"
  using assms
proof (induction rs)
  case Nil
  show ?case by (simp add: sortByLastCommit_def)
next
  case (Cons r rs)
  have "sorted_wrt (\<lambda>a b. notBefore D (r_lastCommit a) (r_lastCommit b)) (insertRepo D r (sortByLastCommit D rs))"
    using Cons by (intro sorted_insertRepo) (simp_all add: set_sortByLastCommit)
  then show ?case by (simp add: sortByLastCommit_def)
qed

lemma sorted_wrt_take_any: "sorted_wrt P xs \<Longrightarrow> sorted_wrt P (take n xs)"
proof (induction xs arbitrary: n)
  case Nil
  show ?case by simp
next
  case (Cons x xs)
  show ?case
  proof (cases n)
    case 0
    then show ?thesis by simp
  next
    case (Suc k)
    have "\<forall>y \<in> set (take k xs). P x y" using Cons.prems by (auto dest: in_set_takeD)
    then show ?thesis using Suc Cons by simp
  qed
qed

text \<open>
  Claim C10, as the code has it. From the fetched commits \<open>getRecentRepositories\<close>
  returns at most 10 entries; the \<open>commitCount\<close> of each is the number of fetched commits
  whose repository is the entry's name; and when every commit date is a valid date, the
  entries are in descending order of their last-commit date, where entries with the same
  date may follow each other: each entry is not before any entry behind it.
\<close>

theorem getRecentRepositories_entries:
  "length (getRecentRepositories D (Inr commits)) \<le> 10
   \<and> (\<forall>r \<in> set (getRecentRepositories D (Inr commits)).
        r_commitCount r = length (filter (\<lambda>c. c_repository c = r_name r) commits))
   \<and> ((\<forall>c \<in> set commits. D (c_date c) \<noteq> None) \<longrightarrow>
        sorted_wrt (\<lambda>a b. notBefore D (r_lastCommit a) (r_lastCommit b))
          (getRecentRepositories D (Inr commits)))"
proof -
  let ?m = "fold (countCommit D) commits []"
  let ?rs = "map snd ?m"
  have inv: "reposInv commits ?m" by (rule fold_countCommit_inv)
  have ok: "entryOk commits (r_name r) r" if "r \<in> set ?rs" for r
  proof -
    from that obtain k where ke: "(k, r) \<in> set ?m" by auto
    then have "entryOk commits k r" using inv by (simp add: reposInv_def)
    then show ?thesis by (simp add: entryOk_def)
  qed
  have sub: "set (getRecentRepositories D (Inr commits)) \<subseteq> set ?rs"
    using set_take_subset[of 10 "sortByLastCommit D ?rs"]
    by (simp add: getRecentRepositories_def set_sortByLastCommit)
  have a: "length (getRecentRepositories D (Inr commits)) \<le> 10"
    by (simp add: getRecentRepositories_def)
  have b: "\<forall>r \<in> set (getRecentRepositories D (Inr commits)).
        r_commitCount r = length (filter (\<lambda>c. c_repository c = r_name r) commits)"
    using sub ok by (auto simp: entryOk_def countOf_def)
  have c: "sorted_wrt (\<lambda>a b. notBefore D (r_lastCommit a) (r_lastCommit b))
          (getRecentRepositories D (Inr commits))"
    if v: "\<forall>c \<in> set commits. D (c_date c) \<noteq> None"
  proof -
    have "\<forall>r \<in> set ?rs. validDate D r"
    proof
      fix r assume "r \<in> set ?rs"
      then have "r_lastCommit r \<in> c_date ` set commits" using ok by (simp add: entryOk_def)
      then show "validDate D r" using v by (auto simp: validDate_def)
    qed
    then have "sorted_wrt (\<lambda>a b. notBefore D (r_lastCommit a) (r_lastCommit b)) (sortByLastCommit D ?rs)"
      by (rule sorted_sortByLastCommit)
    then show ?thesis by (simp add: getRecentRepositories_def sorted_wrt_take_any)
  qed
  show ?thesis using a b c by blast
qed

text \<open>An instance: three commits with valid dates in two repositories.\<close>

theorem getRecentRepositories_entries_witness:
  "getRecentRepositories exDate (Inr [exCommit ''a1'' ''org/one'' ''2024-01-01T00:00:00Z'' [],
                 exCommit ''a2'' ''org/two'' ''2024-01-03T00:00:00Z'' [],
                 exCommit ''a3'' ''org/one'' ''2024-01-02T00:00:00Z'' []])
     = [\<lparr>r_name = ''org/two'', r_commitCount = 1, r_lastCommit = ''2024-01-03T00:00:00Z''\<rparr>,
        \<lparr>r_name = ''org/one'', r_commitCount = 2, r_lastCommit = ''2024-01-02T00:00:00Z''\<rparr>]
   \<and> sorted_wrt (\<lambda>a b. notBefore exDate (r_lastCommit a) (r_lastCommit b))
        (getRecentRepositories exDate (Inr [exCommit ''a1'' ''org/one'' ''2024-01-01T00:00:00Z'' [],
                 exCommit ''a2'' ''org/two'' ''2024-01-03T00:00:00Z'' [],
                 exCommit ''a3'' ''org/one'' ''2024-01-02T00:00:00Z'' []]))"
proof -
  have h: "\<forall>c \<in> set [exCommit ''a1'' ''org/one'' ''2024-01-01T00:00:00Z'' [],
                 exCommit ''a2'' ''org/two'' ''2024-01-03T00:00:00Z'' [],
                 exCommit ''a3'' ''org/one'' ''2024-01-02T00:00:00Z'' []]. exDate (c_date c) \<noteq> None"
    by (simp add: exCommit_def exDate_def)
  have v: "getRecentRepositories exDate (Inr [exCommit ''a1'' ''org/one'' ''2024-01-01T00:00:00Z'' [],
                 exCommit ''a2'' ''org/two'' ''2024-01-03T00:00:00Z'' [],
                 exCommit ''a3'' ''org/one'' ''2024-01-02T00:00:00Z'' []])
     = [\<lparr>r_name = ''org/two'', r_commitCount = 1, r_lastCommit = ''2024-01-03T00:00:00Z''\<rparr>,
        \<lparr>r_name = ''org/one'', r_commitCount = 2, r_lastCommit = ''2024-01-02T00:00:00Z''\<rparr>]"
    by (simp add: getRecentRepositories_def countCommit_def sortByLastCommit_def exCommit_def
      laterThan_def exDate_def Let_def)
  have "sorted_wrt (\<lambda>a b. notBefore exDate (r_lastCommit a) (r_lastCommit b))
        (getRecentRepositories exDate (Inr [exCommit ''a1'' ''org/one'' ''2024-01-01T00:00:00Z'' [],
                 exCommit ''a2'' ''org/two'' ''2024-01-03T00:00:00Z'' [],
                 exCommit ''a3'' ''org/one'' ''2024-01-02T00:00:00Z'' []]))"
    using h getRecentRepositories_entries[of exDate "[exCommit ''a1'' ''org/one'' ''2024-01-01T00:00:00Z'' [],
                 exCommit ''a2'' ''org/two'' ''2024-01-03T00:00:00Z'' [],
                 exCommit ''a3'' ''org/one'' ''2024-01-02T00:00:00Z'' []]"]
    by blast
  then show ?thesis using v by blast
qed

text \<open>
  The order is not strict: two repositories whose last commits carry the same date are
  both listed, and neither is later than the other.
\<close>

theorem strictly_descending_counterexample:
  "\<not> sorted_wrt (\<lambda>a b. laterThan exDate (r_lastCommit a) (r_lastCommit b))
        (getRecentRepositories exDate
           (Inr [exCommit ''a1'' ''org/one'' ''2024-01-01T00:00:00Z'' [],
                 exCommit ''a2'' ''org/two'' ''2024-01-01T00:00:00Z'' []]))"
  by (simp add: getRecentRepositories_def countCommit_def sortByLastCommit_def exCommit_def
      laterThan_def exDate_def Let_def)

section \<open>Properties of the identity resolution\<close>

text \<open>
  \<open>findUser\<close> never throws; without a configured token it returns \<open>null\<close> and sends
  nothing; a direct lookup that is answered with 401 gives \<open>null\<close>.
\<close>

lemma makeRequest_cases:
  "(\<exists>r st'. makeRequest net url ps st = (Inr r, st')) \<or>
   (\<exists>s st'. makeRequest net url ps st = (Inl (RequestFailed s), st') \<and> s \<noteq> Some 404 \<and> s \<noteq> Some 401)"
  by (auto simp: makeRequest_def Let_def split: prod.splits outcome.splits option.splits)

lemma findUser_never_throws: "\<exists>r. fst (findUser net username st) = Inr r"
  by (auto simp: findUser_def Let_def split: option.splits prod.splits sum.splits payload.splits list.splits)

lemma findUser_not_configured:
  "\<not> tokenConfigured st \<Longrightarrow> findUser net username st = (Inr None, st)"
  by (simp add: findUser_def)

lemma findUser_auth_failure:
  assumes "tokenConfigured st" and "cache st (''gh-user:'' @ toLowerCase username) = None"
    and "\<And>h. net h \<lparr>rq_url = ''/users/'' @ username, rq_params = []\<rparr> = Failed (Some 401)"
  shows "fst (findUser net username st) = Inr None"
  using assms
  by (simp add: findUser_def makeRequest_def httpGet_def Let_def split: prod.splits)

text \<open>
  Claim C5, at the input where the code leaves it. The name \<open>Maya Patel\<close> is no login,
  so the direct lookup is answered with 404; \<open>makeRequest\<close> turns the 404 into \<open>null\<close>,
  and \<open>findUser\<close> returns \<open>null\<close> at once: the requests it has sent are the rate-limit
  check and the direct lookup, and no search, although the search for that name would
  have found the user. The search is only reached when \<open>makeRequest\<close> throws.
\<close>

theorem findUser_not_found_skips_search:
  "findUser exNet ''Maya Patel'' exClient =
     (Inr None,
      exClient\<lparr>rateLimitRemaining := Some 4990, rateLimitReset := Some 1704067200000,
               sent := [\<lparr>rq_url = ''/rate_limit'', rq_params = []\<rparr>,
                        \<lparr>rq_url = ''/users/Maya Patel'', rq_params = []\<rparr>]\<rparr>)
   \<and> exNet [] \<lparr>rq_url = ''/search/users'', rq_params = [(''q'', ''Maya Patel'')]\<rparr>
       = Replied \<lparr>rs_data = SearchData (Some [exMaya]), rs_remaining = Some 4989\<rparr>"
  by (simp add: findUser_def makeRequest_def checkRateLimit_def httpGet_def tokenConfigured_def
      exNet_def exClient_def Let_def toLowerCase_def)

section \<open>Properties of the ticket references\<close>

lemma fold_unique:
  "distinct acc \<Longrightarrow>
     distinct (fold (\<lambda>x acc. if x \<in> set acc then acc else acc @ [x]) xs acc) \<and>
     set (fold (\<lambda>x acc. if x \<in> set acc then acc else acc @ [x]) xs acc) = set acc \<union> set xs"
  by (induction xs arbitrary: acc) auto

lemma distinct_unique: "distinct (unique xs)"
  using fold_unique[of "[]" xs] by (simp add: unique_def)

lemma set_unique: "set (unique xs) = set xs"
  using fold_unique[of "[]" xs] by (simp add: unique_def)

lemma scanAll_ends:
  "(i, j) \<in> set (scanAll r s i0 k rest) \<Longrightarrow> j \<in> set (ends r s i)"
proof (induction rest arbitrary: i0 k)
  case Nil
  then show ?case by (auto split: if_splits list.splits) (metis list.set_intros(1))
next
  case (Cons c cs)
  then show ?case by (auto split: if_splits list.splits)
qed

lemma take_takeWhile:
  assumes "k \<le> length (takeWhile p xs)"
  shows "take k xs = take k (takeWhile p xs)"
proof -
  have "take k xs = take k (takeWhile p xs @ dropWhile p xs)" by simp
  also have "\<dots> = take k (takeWhile p xs)" using assms by (simp del: takeWhile_dropWhile_id)
  finally show ?thesis .
qed

lemma ends_Plus:
  assumes "a \<in> set (ends (Plus p) s i)"
  shows "i < a \<and> a \<le> length s \<and> list_all p (substring s i a)"
proof -
  let ?n = "length (takeWhile p (drop i s))"
  from assms obtain k where k: "a = i + k" "1 \<le> k" "k \<le> ?n" by auto
  have n: "?n \<le> length s - i" using length_takeWhile_le[of p "drop i s"] by simp
  have "substring s i a = take k (takeWhile p (drop i s))"
    using k take_takeWhile[of k p "drop i s"] by (simp add: substring_def)
  then have "set (substring s i a) \<subseteq> set (takeWhile p (drop i s))"
    by (simp add: set_take_subset)
  then have "list_all p (substring s i a)"
    by (auto simp: list_all_iff dest: set_takeWhileD)
  then show ?thesis using k n by auto
qed

lemma canon_hyphen:
  assumes "canon c = CHR ''-''"
  shows "c = CHR ''-''"
proof (cases "isLower c")
  case True
  then have "(of_char (canon c) :: nat) = ((of_char c :: nat) - 32) mod 256"
    by (simp add: canon_def)
  moreover have "(of_char (CHR ''-'') :: nat) = 45" by simp
  ultimately have m: "((of_char c :: nat) - 32) mod 256 = 45" using assms by simp
  have "65 \<le> (of_char c :: nat) - 32 \<and> (of_char c :: nat) - 32 \<le> 90"
    using True unfolding isLower_def by arith
  then have "((of_char c :: nat) - 32) mod 256 = (of_char c :: nat) - 32 \<and> 65 \<le> (of_char c :: nat) - 32"
    by simp
  with m have False by simp
  then show ?thesis ..
next
  case False
  then show ?thesis using assms by (simp add: canon_def)
qed

lemma ends_hyphen:
  assumes "b \<in> set (ends (Lit ''-'') s a)"
  shows "b = Suc a \<and> a < length s \<and> substring s a b = ''-''"
proof -
  from assms have l: "1 \<le> length s - a" and m: "map canon (take 1 (drop a s)) = map canon ''-''" and b: "b = a + 1"
    by (auto split: if_splits)
  from l have a: "a < length s" by simp
  then have t: "take 1 (drop a s) = [s ! a]"
    by (simp add: take_Suc_conv_app_nth Cons_nth_drop_Suc[symmetric])
  then have "canon (s ! a) = CHR ''-''" using m by (simp add: canon_def isLower_def)
  then have "s ! a = CHR ''-''" by (rule canon_hyphen)
  then show ?thesis using a b t by (simp add: substring_def)
qed

lemma substring_append:
  assumes "i \<le> a" "a \<le> b"
  shows "substring s i a @ substring s a b = substring s i b"
proof -
  have "b - i = (a - i) + (b - a)" using assms by arith
  then have "take (b - i) (drop i s) = take (a - i) (drop i s) @ take (b - a) (drop (a - i) (drop i s))"
    by (simp only: take_add)
  then show ?thesis using assms by (simp add: substring_def)
qed

lemma ends_ticket:
  assumes "j \<in> set (ends jiraTicketRegex s i)"
  shows "\<exists>ls ds. substring s i j = ls @ ''-'' @ ds \<and> ls \<noteq> [] \<and> ds \<noteq> []
            \<and> list_all isLetter ls \<and> list_all isDigit ds"
proof -
  from assms obtain a b where a: "a \<in> set (ends (Plus isLetter) s i)"
    and b: "b \<in> set (ends (Lit ''-'') s a)" and j: "j \<in> set (ends (Plus isDigit) s b)"
    unfolding jiraTicketRegex_def by (auto simp del: ends.simps(1,3) simp add: ends.simps(5,6))
  have A: "i < a" "a \<le> length s" "list_all isLetter (substring s i a)"
    using ends_Plus[OF a] by simp_all
  have B: "b = Suc a" "a < length s" "substring s a b = ''-''"
    using ends_hyphen[OF b] by blast+
  have J: "b < j" "j \<le> length s" "list_all isDigit (substring s b j)"
    using ends_Plus[OF j] by simp_all
  have "substring s i j = substring s i a @ substring s a b @ substring s b j"
    using A(1) B(1) J(1) substring_append[of i a j s] substring_append[of a b j s] by simp
  moreover have "substring s i a \<noteq> []" using A by (simp add: substring_def)
  moreover have "substring s b j \<noteq> []" using J by (simp add: substring_def)
  ultimately show ?thesis using A(3) B(3) J(3) by metis
qed

text \<open>
  Claim C4, as the code has it. For every commit message the \<open>jiraTickets\<close> of the
  commit hold no entry twice; they are exactly the texts that the pattern matches in the
  message; each of them is one or more ASCII letters, of either case since the pattern
  carries the flag \<open>i\<close>, then a hyphen, then one or more digits; and the message
  \<open>fix ABC-123 and ABC-123 again\<close> gives the single entry \<open>ABC-123\<close>.
\<close>

theorem jiraTickets_deduplicated_matches:
  "distinct (jiraTickets message)
   \<and> set (jiraTickets message) = set (matchAll jiraTicketRegex message)
   \<and> (\<forall>t \<in> set (jiraTickets message).
         \<exists>ls ds. t = ls @ ''-'' @ ds \<and> ls \<noteq> [] \<and> ds \<noteq> []
                 \<and> list_all isLetter ls \<and> list_all isDigit ds)
   \<and> jiraTickets ''fix ABC-123 and ABC-123 again'' = [''ABC-123'']"
proof -
  have shape: "\<exists>ls ds. t = ls @ ''-'' @ ds \<and> ls \<noteq> [] \<and> ds \<noteq> []
                 \<and> list_all isLetter ls \<and> list_all isDigit ds"
    if "t \<in> set (jiraTickets message)" for t
  proof -
    from that have "t \<in> set (matchAll jiraTicketRegex message)"
      by (simp add: jiraTickets_def set_unique)
    then obtain i j where ij: "(i, j) \<in> set (allMatches jiraTicketRegex message)"
      and t: "t = substring message i j"
      by (auto simp: matchAll_def)
    have "j \<in> set (ends jiraTicketRegex message i)"
      using ij unfolding allMatches_def by (rule scanAll_ends)
    then show ?thesis using ends_ticket t by simp
  qed
  have ex: "jiraTickets ''fix ABC-123 and ABC-123 again'' = [''ABC-123'']"
    by code_simp
  show ?thesis
    using shape ex by (simp add: jiraTickets_def distinct_unique set_unique)
qed

text \<open>
  An instance: entries that differ in the case of their letters are different entries.
\<close>

theorem jiraTickets_deduplicated_matches_witness:
  "jiraTickets ''Fix ABC-123, see abc-123 and utf-8 (ABC-123)'' = [''ABC-123'', ''abc-123'', ''utf-8'']
   \<and> distinct (jiraTickets ''Fix ABC-123, see abc-123 and utf-8 (ABC-123)'')"
proof -
  have "jiraTickets ''Fix ABC-123, see abc-123 and utf-8 (ABC-123)'' = [''ABC-123'', ''abc-123'', ''utf-8'']"
    by code_simp
  then show ?thesis
    using jiraTickets_deduplicated_matches[of "''Fix ABC-123, see abc-123 and utf-8 (ABC-123)''"]
    by blast
qed

text \<open>A token whose letters are not capitals is included.\<close>

theorem lowercase_ticket_counterexample:
  "jiraTickets ''fix abc-123'' = [''abc-123''] \<and> \<not> list_all isUpper ''abc''"
  by code_simp

section \<open>Properties of the query parser\<close>

text \<open>Comparing a character with one given by its code, for the evaluations below.\<close>

lemma char_of_eq: "(char_of (n::nat) = c) = (n mod 256 = of_char c)"
proof
  assume "char_of n = c"
  then have "(of_char (char_of n) :: nat) = of_char c" by simp
  then show "n mod 256 = of_char c" by simp
next
  assume "n mod 256 = of_char c"
  then have "char_of (n mod 256) = c" by simp
  then show "char_of n = c" by (simp add: char_of_mod_256)
qed

lemma eq_char_of: "(c = char_of (n::nat)) = (n mod 256 = of_char c)"
  using char_of_eq[of n c] by auto

lemmas charClass_defs = isSpace_def isUpper_def isLower_def isDigit_def isLetter_def
  isWordChar_def canon_def lowerChar_def toLowerCase_def char_of_eq eq_char_of

text \<open>
  The question \<open>What has Maya been working on this week?\<close>, step by step: the name,
  the time patterns on a fresh parser and on the parser that the first call leaves
  behind, the intent and the platform.
\<close>

lemma exQuery_questionWords:
  "removeAll questionWords ''What has Maya been working on this week?'' = ''has Maya been working on this week?''"
  by (simp add: removeAll_def allMatches_def questionWords_def charClass_defs)

lemma exQuery_auxiliaryVerbs:
  "removeAll auxiliaryVerbs ''has Maya been working on this week?'' = ''Maya been working on this week?''"
  by (simp add: removeAll_def allMatches_def auxiliaryVerbs_def charClass_defs)

lemma exQuery_activityWords:
  "removeAll activityWords ''Maya been working on this week?'' = ''Maya this week?''"
  by (simp add: removeAll_def allMatches_def activityWords_def charClass_defs)

lemma exQuery_candidates:
  "nameCandidates (split (trim ''Maya this week?'')) [] = [''Maya'']"
  by (simp add: split_def trim_def testOnce_def search_def nameWord_def isCommonWord_def
      charClass_defs)

lemma exQuery_name: "extractName exQuery = Some ''Maya''"
  unfolding extractName_def exQuery_def Let_def
    exQuery_questionWords exQuery_auxiliaryVerbs exQuery_activityWords exQuery_candidates
  by simp

lemma exQuery_first_timeframe:
  "extractTimeframe newQueryParser exQuery = (Some 7, withLastIndex [39, 0, 0, 0, 0, 0, 0] newQueryParser)"
  by (simp add: extractTimeframe_def newQueryParser_def exQuery_def withLastIndex_def test_def
      search_def charClass_defs)

lemma exQuery_second_timeframe:
  "extractTimeframe (withLastIndex [39, 0, 0, 0, 0, 0, 0] newQueryParser) exQuery
     = (None, withLastIndex [0, 0, 0, 0, 0, 0, 0] newQueryParser)"
  by (simp add: extractTimeframe_def newQueryParser_def exQuery_def withLastIndex_def test_def
      search_def charClass_defs)

lemma exQuery_intent: "extractIntent exQuery = ''general''"
  by (simp add: extractIntent_def exQuery_def charClass_defs)

lemma exQuery_platform: "extractPlatform (withLastIndex lis newQueryParser) exQuery = ''both''"
  by (simp add: extractPlatform_def withLastIndex_def newQueryParser_def exQuery_def charClass_defs)

lemma exQuery_first_parse:
  "parse newQueryParser exQuery =
     (\<lparr>pq_originalQuery = exQuery, pq_name = Some ''Maya'', pq_timeframe = Some 7,
        pq_intent = ''general'', pq_platform = ''both''\<rparr>,
      withLastIndex [39, 0, 0, 0, 0, 0, 0] newQueryParser)"
  unfolding parse_def exQuery_first_timeframe
  by (simp add: exQuery_name exQuery_intent exQuery_platform)

lemma exQuery_second_parse:
  "parse (withLastIndex [39, 0, 0, 0, 0, 0, 0] newQueryParser) exQuery =
     (\<lparr>pq_originalQuery = exQuery, pq_name = Some ''Maya'', pq_timeframe = None,
        pq_intent = ''general'', pq_platform = ''both''\<rparr>,
      withLastIndex [0, 0, 0, 0, 0, 0, 0] newQueryParser)"
  unfolding parse_def exQuery_second_timeframe
  by (simp add: exQuery_name exQuery_intent exQuery_platform)

text \<open>
  Claim C1, at the input where the code leaves it. Two calls of \<open>parse\<close> in sequence
  on one parser, with the same question, give different results: the first call finds
  the window of 7 days and leaves \<open>lastIndex = 39\<close> in the pattern for \<open>this week\<close>;
  the second call starts its search there, finds nothing, and reports no window. Name,
  intent and platform are the same in both.
\<close>

theorem parse_twice_differs:
  "parseTwice newQueryParser exQuery =
     (\<lparr>pq_originalQuery = exQuery, pq_name = Some ''Maya'', pq_timeframe = Some 7,
        pq_intent = ''general'', pq_platform = ''both''\<rparr>,
      \<lparr>pq_originalQuery = exQuery, pq_name = Some ''Maya'', pq_timeframe = None,
        pq_intent = ''general'', pq_platform = ''both''\<rparr>)"
  unfolding parseTwice_def exQuery_first_parse
  by (simp add: exQuery_second_parse)

end
